theory Spec2Isabelle
  imports Main "HOL-Library.Word"
begin

section \<open>Strings and thrown values\<close>

text \<open>
  An ECMAScript string is a finite sequence of 16-bit code units. Literals of the source
  that are plain ASCII are written \<open>js ''...''\<close>.
\<close>

type_synonym code_unit = "16 word"
type_synonym jsstring = "code_unit list"

definition js :: "string \<Rightarrow> jsstring" where
  "js s = map (\<lambda>c. word_of_nat (of_char c)) s"

text \<open>
  A value of type \<open>string | undefined\<close>: \<open>None\<close> is \<open>undefined\<close>. Such a value is truthy
  when it is a non-empty string; \<open>a || b\<close> is \<open>a\<close> when \<open>a\<close> is truthy and \<open>b\<close> otherwise.
\<close>

definition truthy :: "jsstring option \<Rightarrow> bool" where
  "truthy v = (case v of None \<Rightarrow> False | Some s \<Rightarrow> s \<noteq> [])"

definition js_or :: "jsstring option \<Rightarrow> jsstring option \<Rightarrow> jsstring option" where
  "js_or a b = (if truthy a then a else b)"

text \<open>
  What a \<open>throw\<close> carries: an \<open>Error\<close> object with its message, or any other value
  (for which \<open>error instanceof Error\<close> is false).
\<close>

datatype js_thrown = ErrorObject jsstring | NonError

section \<open>Ordinary objects as ordered dictionaries\<close>

text \<open>
  An object used as a dictionary is the list of its own enumerable properties in the order
  in which \<open>Object.keys\<close>, the spread syntax and \<open>JSON.stringify\<close> visit them: array-index
  keys (canonical decimal strings below \<open>2^32 - 1\<close>) first, in ascending numeric order, then
  every other key in order of creation. Property reads consult own properties only; the
  members inherited from \<open>Object.prototype\<close> are outside this model.
\<close>

type_synonym 'v obj = "(jsstring \<times> 'v) list"

definition is_digit :: "code_unit \<Rightarrow> bool" where
  "is_digit c = (0x30 \<le> c \<and> c \<le> 0x39)"

definition decimal_val :: "jsstring \<Rightarrow> nat" where
  "decimal_val k = foldl (\<lambda>n c. 10 * n + (unat c - 48)) 0 k"

definition is_array_index :: "jsstring \<Rightarrow> bool" where
  "is_array_index k =
     (k \<noteq> [] \<and> list_all is_digit k \<and> (length k = 1 \<or> hd k \<noteq> 0x30)
      \<and> decimal_val k < 2 ^ 32 - 1)"

text \<open>\<open>key_before k k'\<close>: a newly created key \<open>k\<close> is enumerated before the existing key \<open>k'\<close>.\<close>

definition key_before :: "jsstring \<Rightarrow> jsstring \<Rightarrow> bool" where
  "key_before k k' =
     (is_array_index k \<and> (is_array_index k' \<longrightarrow> decimal_val k < decimal_val k'))"

definition obj_get :: "'v obj \<Rightarrow> jsstring \<Rightarrow> 'v option" where
  "obj_get ob k = map_of ob k"

text \<open>
  Defining or assigning a data property: an existing property keeps its place, a new one
  takes the place its key has in the enumeration order.
\<close>

fun obj_set :: "'v obj \<Rightarrow> jsstring \<Rightarrow> 'v \<Rightarrow> 'v obj" where
  "obj_set [] k v = [(k, v)]"
| "obj_set ((k', v') # ps) k v =
     (if k' = k then (k, v) # ps
      else if key_before k k' then (k, v) # (k', v') # ps
      else (k', v') # obj_set ps k v)"

definition obj_delete :: "'v obj \<Rightarrow> jsstring \<Rightarrow> 'v obj" where
  "obj_delete ob k = filter (\<lambda>p. fst p \<noteq> k) ob"

definition obj_keys :: "'v obj \<Rightarrow> jsstring list" where
  "obj_keys ob = map fst ob"

text \<open>\<open>{...ob}\<close>: a fresh object that receives the properties of \<open>ob\<close> one by one.\<close>

definition obj_spread :: "'v obj \<Rightarrow> 'v obj" where
  "obj_spread ob = foldl (\<lambda>acc p. obj_set acc (fst p) (snd p)) [] ob"

text \<open>\<open>{...x}\<close> where \<open>x\<close> may be \<open>undefined\<close>: spreading \<open>undefined\<close> adds nothing.\<close>

definition spread_opt :: "'v obj option \<Rightarrow> 'v obj" where
  "spread_opt x = (case x of None \<Rightarrow> [] | Some ob \<Rightarrow> obj_spread ob)"

text \<open>The representation invariant: distinct keys, listed in enumeration order.\<close>

definition wf_obj :: "'v obj \<Rightarrow> bool" where
  "wf_obj ob =
     (distinct (map fst ob) \<and> sorted_wrt (\<lambda>k k'. \<not> key_before k' k) (map fst ob))"

section \<open>The snapshot codec: \<open>JSON.stringify(config, null, 2)\<close> and \<open>JSON.parse\<close>\<close>

text \<open>
  A configuration maps keys to strings; \<open>handleUpdateKey\<close> can also store \<open>undefined\<close>
  (the value read from a key that is not there).
\<close>

datatype jsvalue = JString jsstring | JUndefined

type_synonym FetchedConfig = "jsvalue obj"

definition is_high_surrogate :: "code_unit \<Rightarrow> bool" where
  "is_high_surrogate c = (0xD800 \<le> c \<and> c \<le> 0xDBFF)"

definition is_low_surrogate :: "code_unit \<Rightarrow> bool" where
  "is_low_surrogate c = (0xDC00 \<le> c \<and> c \<le> 0xDFFF)"

definition hexdigit :: "nat \<Rightarrow> code_unit" where
  "hexdigit n = (if n < 10 then word_of_nat (48 + n) else word_of_nat (87 + n))"

text \<open>\<open>UnicodeEscape\<close>: a backslash, \<open>u\<close> and four lower-case hexadecimal digits.\<close>

definition unicode_escape :: "code_unit \<Rightarrow> jsstring" where
  "unicode_escape c =
     [0x5C, 0x75, hexdigit (unat c div 4096), hexdigit (unat c div 256 mod 16),
      hexdigit (unat c div 16 mod 16), hexdigit (unat c mod 16)]"

text \<open>
  One code unit that is not a surrogate: the two-character escapes for backspace, tab,
  line feed, form feed, carriage return, the double quote and the backslash; a
  \<open>\u\<close> escape for the other control characters; every other code unit as it is.
\<close>

definition quote_unit :: "code_unit \<Rightarrow> jsstring" where
  "quote_unit c =
     (if c = 0x08 then [0x5C, 0x62]
      else if c = 0x09 then [0x5C, 0x74]
      else if c = 0x0A then [0x5C, 0x6E]
      else if c = 0x0C then [0x5C, 0x66]
      else if c = 0x0D then [0x5C, 0x72]
      else if c = 0x22 then [0x5C, 0x22]
      else if c = 0x5C then [0x5C, 0x5C]
      else if c < 0x20 then unicode_escape c
      else [c])"

text \<open>
  The body of \<open>QuoteJSONString\<close>: a high surrogate followed by a low surrogate is one code
  point and is copied; a surrogate on its own is written as a \<open>\u\<close> escape.
\<close>

fun quote_units :: "jsstring \<Rightarrow> jsstring" where
  "quote_units [] = []"
| "quote_units [c] =
     (if is_high_surrogate c \<or> is_low_surrogate c then unicode_escape c else quote_unit c)"
| "quote_units (c # d # ds) =
     (if is_high_surrogate c then
        (if is_low_surrogate d then c # d # quote_units ds
         else unicode_escape c @ quote_units (d # ds))
      else if is_low_surrogate c then unicode_escape c @ quote_units (d # ds)
      else quote_unit c @ quote_units (d # ds))"

definition QuoteJSONString :: "jsstring \<Rightarrow> jsstring" where
  "QuoteJSONString s = 0x22 # quote_units s @ [0x22]"

text \<open>The properties that are serialised: those whose value is not \<open>undefined\<close>.\<close>

fun string_members :: "FetchedConfig \<Rightarrow> (jsstring \<times> jsstring) list" where
  "string_members [] = []"
| "string_members ((k, JString s) # ps) = (k, s) # string_members ps"
| "string_members ((k, JUndefined) # ps) = string_members ps"

definition member_text :: "jsstring \<times> jsstring \<Rightarrow> jsstring" where
  "member_text m = QuoteJSONString (fst m) @ [0x3A, 0x20] @ QuoteJSONString (snd m)"

text \<open>The members, each after a line feed and two spaces, separated by commas.\<close>

fun members_text :: "(jsstring \<times> jsstring) list \<Rightarrow> jsstring" where
  "members_text [] = []"
| "members_text [m] = [0x0A, 0x20, 0x20] @ member_text m"
| "members_text (m # m' # ms) =
     [0x0A, 0x20, 0x20] @ member_text m @ [0x2C] @ members_text (m' # ms)"

definition JSON_stringify :: "FetchedConfig \<Rightarrow> jsstring" where
  "JSON_stringify config =
     (let ms = string_members config
      in if ms = [] then [0x7B, 0x7D]
         else [0x7B] @ members_text ms @ [0x0A, 0x7D])"

text \<open>
  \<open>JSON.parse\<close> on the snapshot type. The text must be a JSON object whose member values
  are all JSON strings; \<open>None\<close> stands for a \<open>SyntaxError\<close> and for a parsed value that is
  not a snapshot (a number, a nested object, an array, a literal).
\<close>

definition is_json_ws :: "code_unit \<Rightarrow> bool" where
  "is_json_ws c = (c = 0x09 \<or> c = 0x0A \<or> c = 0x0D \<or> c = 0x20)"

definition skip_ws :: "jsstring \<Rightarrow> jsstring" where
  "skip_ws s = dropWhile is_json_ws s"

definition unhex :: "code_unit \<Rightarrow> nat option" where
  "unhex c =
     (if 0x30 \<le> c \<and> c \<le> 0x39 then Some (unat c - 48)
      else if 0x61 \<le> c \<and> c \<le> 0x66 then Some (unat c - 87)
      else if 0x41 \<le> c \<and> c \<le> 0x46 then Some (unat c - 55)
      else None)"

definition hex4 :: "code_unit \<Rightarrow> code_unit \<Rightarrow> code_unit \<Rightarrow> code_unit \<Rightarrow> code_unit option" where
  "hex4 a b c d =
     (case (unhex a, unhex b, unhex c, unhex d) of
        (Some x, Some y, Some z, Some w) \<Rightarrow> Some (word_of_nat (((x * 16 + y) * 16 + z) * 16 + w))
      | _ \<Rightarrow> None)"

text \<open>The character after a backslash, other than \<open>u\<close>.\<close>

definition json_unescape :: "code_unit \<Rightarrow> code_unit option" where
  "json_unescape e =
     (if e = 0x22 then Some 0x22
      else if e = 0x2F then Some 0x2F
      else if e = 0x5C then Some 0x5C
      else if e = 0x62 then Some 0x08
      else if e = 0x66 then Some 0x0C
      else if e = 0x6E then Some 0x0A
      else if e = 0x72 then Some 0x0D
      else if e = 0x74 then Some 0x09
      else None)"

definition cons_result :: "code_unit \<Rightarrow> (jsstring \<times> jsstring) option \<Rightarrow> (jsstring \<times> jsstring) option" where
  "cons_result u r = (case r of None \<Rightarrow> None | Some (s, rest) \<Rightarrow> Some (u # s, rest))"

text \<open>
  The characters of a JSON string up to and including the closing quote; the result is the
  string value and the text that follows.
\<close>

fun JSON_string_chars :: "jsstring \<Rightarrow> (jsstring \<times> jsstring) option" where
  "JSON_string_chars [] = None"
| "JSON_string_chars (c # cs) =
     (if c = 0x22 then Some ([], cs)
      else if c = 0x5C then
        (case cs of
           [] \<Rightarrow> None
         | e # es \<Rightarrow>
             if e = 0x75 then
               (case es of
                  h1 # h2 # h3 # h4 # rest \<Rightarrow>
                    (case hex4 h1 h2 h3 h4 of
                       None \<Rightarrow> None
                     | Some u \<Rightarrow> cons_result u (JSON_string_chars rest))
                | _ \<Rightarrow> None)
             else
               (case json_unescape e of
                  None \<Rightarrow> None
                | Some u \<Rightarrow> cons_result u (JSON_string_chars es)))
      else if c < 0x20 then None
      else cons_result c (JSON_string_chars cs))"

definition JSON_string :: "jsstring \<Rightarrow> (jsstring \<times> jsstring) option" where
  "JSON_string s = (case s of [] \<Rightarrow> None | c # cs \<Rightarrow> if c = 0x22 then JSON_string_chars cs else None)"

lemma cons_result_Some:
  "cons_result u r = Some (s, rest) \<longleftrightarrow> (\<exists>s'. r = Some (s', rest) \<and> s = u # s')"
  by (auto simp: cons_result_def split: option.splits)

lemma JSON_string_chars_length:
  "JSON_string_chars inp = Some (s, rest) \<Longrightarrow> length rest < length inp"
proof (induction inp arbitrary: s rule: length_induct)
  case (1 xs)
  show ?case
  proof (cases xs)
    case Nil
    with "1.prems" show ?thesis by simp
  next
    case (Cons c cs)
    have IH: "\<And>ys s'. length ys < length xs \<Longrightarrow> JSON_string_chars ys = Some (s', rest)
                \<Longrightarrow> length rest < length ys"
      using "1.IH" by blast
    from "1.prems" Cons show ?thesis
      by (auto simp: cons_result_Some split: if_splits list.splits option.splits
               dest!: IH[rotated])
  qed
qed

lemma JSON_string_length:
  "JSON_string inp = Some (s, rest) \<Longrightarrow> length rest < length inp"
  by (cases inp) (auto simp: JSON_string_def dest: JSON_string_chars_length split: if_splits)

lemma skip_ws_length: "length (skip_ws s) \<le> length s"
  by (simp add: skip_ws_def length_dropWhile_le)

text \<open>
  The members of a non-empty object, from the first key to the closing brace: a string,
  a colon, a string, then a comma and further members, or the brace.
\<close>

function JSON_members :: "jsstring \<Rightarrow> ((jsstring \<times> jsstring) list \<times> jsstring) option" where
  "JSON_members inp =
     (case JSON_string inp of
        None \<Rightarrow> None
      | Some (k, r1) \<Rightarrow>
          (case skip_ws r1 of
             [] \<Rightarrow> None
           | c # r2 \<Rightarrow>
               if c \<noteq> 0x3A then None
               else
                 (case JSON_string (skip_ws r2) of
                    None \<Rightarrow> None
                  | Some (v, r3) \<Rightarrow>
                      (case skip_ws r3 of
                         [] \<Rightarrow> None
                       | d # r4 \<Rightarrow>
                           if d = 0x7D then Some ([(k, v)], r4)
                           else if d = 0x2C then
                             (case JSON_members (skip_ws r4) of
                                None \<Rightarrow> None
                              | Some (ms, rest) \<Rightarrow> Some ((k, v) # ms, rest))
                           else None))))"
  by pat_completeness auto
termination
proof (relation "measure length", goal_cases)
  case 1
  show ?case by simp
next
  case (2 inp x2 k r1 c r2 x2a v r3 d r4)
  have a: "length r1 < length inp"
    using 2 JSON_string_length by metis
  have b: "length r2 < length r1"
    using 2 skip_ws_length[of r1] by simp
  have c: "length r3 < length (skip_ws r2)"
    using 2 JSON_string_length by metis
  have d: "length r4 < length r3"
    using 2 skip_ws_length[of r3] by simp
  have "length (skip_ws r4) \<le> length r4" by (rule skip_ws_length)
  with a b c d skip_ws_length[of r2] show ?case by simp
qed

text \<open>
  \<open>JSON.parse\<close>: white space, an object, white space and nothing more. The object is built
  member by member, so a repeated key keeps its first place and its last value.
\<close>

definition JSON_parse :: "jsstring \<Rightarrow> FetchedConfig option" where
  "JSON_parse text =
     (case skip_ws text of
        [] \<Rightarrow> None
      | c # r \<Rightarrow>
          if c \<noteq> 0x7B then None
          else
            (case skip_ws r of
               [] \<Rightarrow> None
             | d # r' \<Rightarrow>
                 if d = 0x7D then (if skip_ws r' = [] then Some [] else None)
                 else
                   (case JSON_members (skip_ws r) of
                      None \<Rightarrow> None
                    | Some (ms, rest) \<Rightarrow>
                        if skip_ws rest = []
                        then Some (foldl (\<lambda>ob m. obj_set ob (fst m) (JString (snd m))) [] ms)
                        else None)))"

section \<open>The content uploader (\<open>services/ipfsUploader.ts\<close>)\<close>

text \<open>
  What the code reads from its surroundings is a parameter of the model: the build-time
  variable \<open>import.meta.env.VITE_PINATA_JWT\<close>, the clock behind
  \<open>new Date().toISOString()\<close>, and the answers of the pinning service to the two SDK
  calls the code makes. Each call to the service is recorded as an event, in order.
\<close>

record ImportMetaEnv =
  VITE_PINATA_JWT :: "jsstring option"

record PinataSDK =
  pinataJwt :: jsstring
  pinataGateway :: jsstring

record File =
  file_bits :: jsstring
  file_name :: jsstring
  file_type :: jsstring

record UploadOptions =
  metadata_name :: jsstring
  keyvalues_environment :: jsstring
  keyvalues_type :: jsstring
  keyvalues_timestamp :: jsstring

record UploadResponse =
  cid :: jsstring

record pinata_service =
  testAuthentication :: "PinataSDK \<Rightarrow> js_thrown + unit"
  upload_public_file :: "PinataSDK \<Rightarrow> File \<Rightarrow> UploadOptions \<Rightarrow> js_thrown + UploadResponse"

datatype event =
    TestAuthentication PinataSDK
  | UploadPublicFile PinataSDK File UploadOptions
  | NamePublish jsstring jsstring

record UploadResult =
  success :: bool
  ipfsHash :: "jsstring option"
  error :: "jsstring option"

definition jwt_required :: jsstring where
  "jwt_required = js ''Pinata JWT is required - either from config._env.pinataJWT or VITE_PINATA_JWT environment variable''"

definition getPinataInstance :: "ImportMetaEnv \<Rightarrow> jsstring option \<Rightarrow> js_thrown + PinataSDK" where
  "getPinataInstance env pinataJwt_arg =
     (case js_or pinataJwt_arg (VITE_PINATA_JWT env) of
        None \<Rightarrow> Inl (ErrorObject jwt_required)
      | Some jwt \<Rightarrow>
          if jwt = [] then Inl (ErrorObject jwt_required)
          else Inr \<lparr>pinataJwt = jwt, pinataGateway = js ''https://gateway.pinata.cloud''\<rparr>)"

text \<open>
  The \<open>try\<close> block of \<open>uploadConfigToIPFS\<close>: \<open>Inl\<close> is the value thrown inside it, \<open>Inr\<close>
  the value returned; the second component lists the calls made to the service.
\<close>

definition uploadConfigToIPFS_try ::
  "ImportMetaEnv \<Rightarrow> pinata_service \<Rightarrow> jsstring \<Rightarrow> FetchedConfig \<Rightarrow> jsstring \<Rightarrow> jsstring option
     \<Rightarrow> (js_thrown + UploadResult) \<times> event list" where
  "uploadConfigToIPFS_try env svc now config environmentName pinataJWT =
     (case getPinataInstance env pinataJWT of
        Inl e \<Rightarrow> (Inl e, [])
      | Inr pinataInstance \<Rightarrow>
          (case testAuthentication svc pinataInstance of
             Inl e \<Rightarrow> (Inl e, [TestAuthentication pinataInstance])
           | Inr _ \<Rightarrow>
               (let jsonString = JSON_stringify config;
                    fileName = environmentName;
                    file = \<lparr>file_bits = jsonString, file_name = fileName,
                            file_type = js ''application/json''\<rparr>;
                    options = \<lparr>metadata_name = fileName,
                               keyvalues_environment = environmentName,
                               keyvalues_type = js ''configuration'',
                               keyvalues_timestamp = now\<rparr>;
                    trace = [TestAuthentication pinataInstance,
                             UploadPublicFile pinataInstance file options]
                in case upload_public_file svc pinataInstance file options of
                     Inl e \<Rightarrow> (Inl e, trace)
                   | Inr upload \<Rightarrow>
                       (Inr \<lparr>success = True, ipfsHash = Some (cid upload), error = None\<rparr>,
                        trace))))"

text \<open>
  The whole function: the \<open>catch\<close> clause turns whatever was thrown into a result. The
  promise it returns is fulfilled (\<open>Inr\<close>) or rejected (\<open>Inl\<close>).
\<close>

definition uploadConfigToIPFS ::
  "ImportMetaEnv \<Rightarrow> pinata_service \<Rightarrow> jsstring \<Rightarrow> FetchedConfig \<Rightarrow> jsstring \<Rightarrow> jsstring option
     \<Rightarrow> (js_thrown + UploadResult) \<times> event list" where
  "uploadConfigToIPFS env svc now config environmentName pinataJWT =
     (case uploadConfigToIPFS_try env svc now config environmentName pinataJWT of
        (Inr result, trace) \<Rightarrow> (Inr result, trace)
      | (Inl thrown, trace) \<Rightarrow>
          (Inr \<lparr>success = False, ipfsHash = None,
                error = Some (case thrown of
                                ErrorObject message \<Rightarrow> message
                              | NonError \<Rightarrow> js ''Unknown upload error'')\<rparr>,
           trace))"

definition isPinataConfigured :: "ImportMetaEnv \<Rightarrow> jsstring option \<Rightarrow> bool" where
  "isPinataConfigured env pinataJWT = truthy (js_or pinataJWT (VITE_PINATA_JWT env))"

definition getUploadStatusMessage :: "ImportMetaEnv \<Rightarrow> jsstring \<Rightarrow> jsstring" where
  "getUploadStatusMessage env environmentName =
     (if \<not> isPinataConfigured env None
      then js ''Pinata not configured. Please set VITE_PINATA_JWT environment variable.''
      else js ''Ready to upload '' @ environmentName @ js '' configuration to IPFS'')"

text \<open>The events of a trace that hand a file to the pinning service.\<close>

fun is_upload :: "event \<Rightarrow> bool" where
  "is_upload (UploadPublicFile _ _ _) = True"
| "is_upload _ = False"

fun is_name_publish :: "event \<Rightarrow> bool" where
  "is_name_publish (NamePublish _ _) = True"
| "is_name_publish _ = False"

text \<open>The credential a call to the pinning service was made with.\<close>

fun event_jwt :: "event \<Rightarrow> jsstring option" where
  "event_jwt (TestAuthentication sdk) = Some (pinataJwt sdk)"
| "event_jwt (UploadPublicFile sdk _ _) = Some (pinataJwt sdk)"
| "event_jwt (NamePublish _ _) = None"

text \<open>The contents of the files a trace hands to the pinning service.\<close>

fun uploaded_bits :: "event list \<Rightarrow> jsstring list" where
  "uploaded_bits [] = []"
| "uploaded_bits (UploadPublicFile sdk f options # evs) = file_bits f # uploaded_bits evs"
| "uploaded_bits (ev # evs) = uploaded_bits evs"

section \<open>The edit operations of \<open>ConfigManager\<close>\<close>

text \<open>
  \<open>String.prototype.trim\<close> removes white space and line terminators from both ends.
\<close>

definition is_js_whitespace :: "code_unit \<Rightarrow> bool" where
  "is_js_whitespace c =
     (c = 0x09 \<or> c = 0x0A \<or> c = 0x0B \<or> c = 0x0C \<or> c = 0x0D \<or> c = 0x20 \<or> c = 0xA0
      \<or> c = 0x1680 \<or> (0x2000 \<le> c \<and> c \<le> 0x200A) \<or> c = 0x2028 \<or> c = 0x2029
      \<or> c = 0x202F \<or> c = 0x205F \<or> c = 0x3000 \<or> c = 0xFEFF)"

definition String_trim :: "jsstring \<Rightarrow> jsstring" where
  "String_trim s = rev (dropWhile is_js_whitespace (rev (dropWhile is_js_whitespace s)))"

text \<open>
  The state \<open>fetchedConfigs\<close>: one configuration per environment label. Every handler
  computes the next state from the previous one (the function given to
  \<open>setFetchedConfigs\<close>); a handler that returns early leaves the state as it is.
\<close>

type_synonym fetchedConfigs = "FetchedConfig obj"

definition handleUpdateValue :: "fetchedConfigs \<Rightarrow> jsstring \<Rightarrow> jsstring \<Rightarrow> jsstring \<Rightarrow> fetchedConfigs" where
  "handleUpdateValue prev environmentName key val =
     obj_set (obj_spread prev) environmentName
       (obj_set (spread_opt (obj_get prev environmentName)) key (JString val))"

definition handleUpdateKey :: "fetchedConfigs \<Rightarrow> jsstring \<Rightarrow> jsstring \<Rightarrow> jsstring \<Rightarrow> fetchedConfigs" where
  "handleUpdateKey prev environmentName oldKey newKey =
     (if oldKey = newKey then prev
      else
        (let config = spread_opt (obj_get prev environmentName);
             val = (case obj_get config oldKey of None \<Rightarrow> JUndefined | Some v \<Rightarrow> v);
             config1 = obj_delete config oldKey;
             config2 = obj_set config1 newKey val
         in obj_set (obj_spread prev) environmentName config2))"

definition handleAddKey :: "fetchedConfigs \<Rightarrow> jsstring \<Rightarrow> jsstring \<Rightarrow> jsstring \<Rightarrow> fetchedConfigs" where
  "handleAddKey prev environmentName key val =
     (if String_trim key = [] then prev
      else obj_set (obj_spread prev) environmentName
             (obj_set (spread_opt (obj_get prev environmentName)) key (JString val)))"

definition handleRemoveKey :: "fetchedConfigs \<Rightarrow> jsstring \<Rightarrow> jsstring \<Rightarrow> fetchedConfigs" where
  "handleRemoveKey prev environmentName key =
     (let newConfig = obj_delete (spread_opt (obj_get prev environmentName)) key
      in obj_set (obj_spread prev) environmentName newConfig)"

text \<open>
  The configuration an operation on an environment starts from: \<open>{...prev[environmentName]}\<close>.
\<close>

definition config_of :: "fetchedConfigs \<Rightarrow> jsstring \<Rightarrow> FetchedConfig" where
  "config_of st environmentName = spread_opt (obj_get st environmentName)"

text \<open>The state is an object of objects.\<close>

definition wf_state :: "fetchedConfigs \<Rightarrow> bool" where
  "wf_state st = (wf_obj st \<and> list_all (\<lambda>p. wf_obj (snd p)) st)"

section \<open>The report of \<open>handleUploadAndPublish\<close> (\<open>components/EnvironmentTab.tsx\<close>)\<close>

text \<open>
  The handler awaits \<open>uploadAndUpdateIPNS\<close> and turns its two results into the text it
  shows. Of the name-update result it reads \<open>success\<close>, \<open>ipnsName\<close> and \<open>error\<close>; the
  result is absent when no name update was made. A template literal prints an absent
  value as \<open>undefined\<close>. The marks that open each line are the characters that stand in
  the source file.
\<close>

record IPNSResult =
  ipns_success :: bool
  ipnsName :: "jsstring option"
  ipns_error :: "jsstring option"

definition template :: "jsstring option \<Rightarrow> jsstring" where
  "template v = (case v of None \<Rightarrow> js ''undefined'' | Some s \<Rightarrow> s)"

definition mark_ok :: jsstring where
  "mark_ok = [0x201A, 0xFA, 0xD6]"

definition mark_failed :: jsstring where
  "mark_failed = [0x201A, 0xF9, 0xE5]"

definition mark_link :: jsstring where
  "mark_link = [0xF8FF, 0xFC, 0xEE, 0xF3]"

definition mark_access :: jsstring where
  "mark_access = [0xF8FF, 0xFC, 0xE5, 0xEA]"

definition mark_warning :: jsstring where
  "mark_warning = [0x201A, 0xF6, 0x2020, 0xD4, 0x220F, 0xE8]"

text \<open>Lines 144 to 161: the text passed to \<open>setUploadResult\<close>.\<close>

definition upload_message :: "UploadResult \<Rightarrow> IPNSResult option \<Rightarrow> jsstring" where
  "upload_message ipfsResult ipnsResult =
     (if success ipfsResult \<and> truthy (ipfsHash ipfsResult) then
        (let message = mark_ok @ js '' Uploaded to IPFS! Hash: '' @ template (ipfsHash ipfsResult)
         in case ipnsResult of
              Some r \<Rightarrow>
                if ipns_success r \<and> truthy (ipnsName r)
                then message @ [0x0A] @ mark_link @ js '' IPNS Updated! Name: ''
                       @ template (ipnsName r)
                       @ [0x0A] @ mark_access @ js '' Access: https://ipfs.io/ipns/''
                       @ template (ipnsName r)
                else message @ [0x0A] @ mark_failed @ js '' IPNS update failed: ''
                       @ template (ipns_error r)
            | None \<Rightarrow>
                message @ [0x0A] @ mark_warning
                  @ js '' No IPNS private key found - IPFS upload only'')
      else mark_failed @ js '' Upload failed: '' @ template (error ipfsResult))"

section \<open>The publisher orchestrator\<close>

text \<open>
  Modelled from the spec: the orchestrator \<open>uploadAndUpdateIPNS\<close> of
  \<open>services/ipnsUpdater.ts\<close>, which \<open>handleUploadAndPublish\<close> calls with
  \<open>uploadConfigToIPFS\<close> as its upload step, is not among the sources. The definitions of
  this section follow sections 3, 4.4 and 6 of the specification: the environment record,
  the publish outcome, the publish primitive of the naming network, and the algorithm
  \<open>publish(snapshot, environmentRecord)\<close>. The upload step is the function of the
  sources.
\<close>

record EnvironmentRecord =
  env_name :: jsstring
  publicName :: jsstring
  credential :: "jsstring option"
  serviceCredential :: "jsstring option"

text \<open>
  Modelled from the spec: \<open>uploadResult: {identifier} | {failure}\<close> and
  \<open>nameUpdateResult: {newName, reachableAs: url} | {failure} | {skipped: "no credential"}\<close>.
\<close>

datatype upload_outcome = Identifier jsstring | UploadFailure jsstring

datatype name_update_outcome =
    NameUpdated jsstring jsstring
  | NameUpdateFailure jsstring
  | Skipped

record PublishOutcome =
  uploadResult :: upload_outcome
  nameUpdateResult :: name_update_outcome

text \<open>
  Modelled from the spec: the naming network boundary,
  \<open>publish(credential, contentIdentifier) \<rightarrow> {name} | NameUpdateError\<close>.
\<close>

type_synonym naming_network = "jsstring \<Rightarrow> jsstring \<Rightarrow> jsstring + jsstring"

text \<open>
  Modelled from the spec: the upload of section 4.2 yields a content identifier or fails.
  Here it is read off the promise of \<open>uploadConfigToIPFS\<close>.
\<close>

definition upload_identifier :: "js_thrown + UploadResult \<Rightarrow> jsstring + jsstring" where
  "upload_identifier settled =
     (case settled of
        Inl thrown \<Rightarrow> Inl (case thrown of ErrorObject message \<Rightarrow> message | NonError \<Rightarrow> [])
      | Inr result \<Rightarrow>
          (case ipfsHash result of
             Some identifier \<Rightarrow>
               if success result then Inr identifier
               else Inl (case error result of Some message \<Rightarrow> message | None \<Rightarrow> [])
           | None \<Rightarrow> Inl (case error result of Some message \<Rightarrow> message | None \<Rightarrow> [])))"

text \<open>
  Modelled from the spec: section 4.4. Encode and upload; on failure return at once with
  the name update skipped; without a credential return the identifier with the name update
  skipped; with a credential invoke the publish primitive on the new identifier and report
  its result beside the identifier. The address under \<open>reachableAs\<close> is the one
  \<open>handleUploadAndPublish\<close> displays.
\<close>

definition publish ::
  "ImportMetaEnv \<Rightarrow> pinata_service \<Rightarrow> naming_network \<Rightarrow> jsstring \<Rightarrow> FetchedConfig
     \<Rightarrow> EnvironmentRecord \<Rightarrow> PublishOutcome \<times> event list" where
  "publish env svc naming now snapshot environmentRecord =
     (case uploadConfigToIPFS env svc now snapshot (env_name environmentRecord)
             (serviceCredential environmentRecord) of
        (settled, trace) \<Rightarrow>
          (case upload_identifier settled of
             Inl failure \<Rightarrow>
               (\<lparr>uploadResult = UploadFailure failure, nameUpdateResult = Skipped\<rparr>, trace)
           | Inr identifier \<Rightarrow>
               (case credential environmentRecord of
                  None \<Rightarrow>
                    (\<lparr>uploadResult = Identifier identifier, nameUpdateResult = Skipped\<rparr>, trace)
                | Some key \<Rightarrow>
                    (case naming key identifier of
                       Inl failure \<Rightarrow>
                         (\<lparr>uploadResult = Identifier identifier,
                           nameUpdateResult = NameUpdateFailure failure\<rparr>,
                          trace @ [NamePublish key identifier])
                     | Inr newName \<Rightarrow>
                         (\<lparr>uploadResult = Identifier identifier,
                           nameUpdateResult =
                             NameUpdated newName (js ''https://ipfs.io/ipns/'' @ newName)\<rparr>,
                          trace @ [NamePublish key identifier])))))"

section \<open>Worked examples\<close>

text \<open>The inputs at which the theorems below are instantiated.\<close>

text \<open>A pinning service that accepts one credential and refuses an empty file.\<close>

definition example_service :: "jsstring \<Rightarrow> pinata_service" where
  "example_service valid =
     \<lparr>testAuthentication =
        (\<lambda>sdk. if pinataJwt sdk = valid then Inr ()
               else Inl (ErrorObject (js ''Authentication failed''))),
      upload_public_file =
        (\<lambda>sdk file options. if file_bits file = [] then Inl NonError
                            else Inr \<lparr>cid = js ''cid-of-'' @ file_name file\<rparr>)\<rparr>"

definition example_snapshot :: FetchedConfig where
  "example_snapshot = [(js ''a'', JString (js ''1'')), (js ''b'', JString (js ''2''))]"

definition example_state :: fetchedConfigs where
  "example_state =
     [(js ''dev'', [(js ''a'', JString (js ''1''))]),
      (js ''prod'', [(js ''b'', JString (js ''2''))])]"

text \<open>A record with both credentials, and two naming networks.\<close>

definition example_record :: EnvironmentRecord where
  "example_record =
     \<lparr>env_name = js ''dev'', publicName = js ''k51-dev'', credential = Some (js ''ipns-key''),
      serviceCredential = Some (js ''own'')\<rparr>"

definition unreachable_network :: naming_network where
  "unreachable_network key identifier = Inl (js ''network unreachable'')"

definition reachable_network :: naming_network where
  "reachable_network key identifier = Inr (js ''k51-'' @ key)"

section \<open>Properties of objects\<close>

lemma obj_get_obj_set:
  "obj_get (obj_set ob k v) k' = (if k' = k then Some v else obj_get ob k')"
  by (induction ob) (auto simp: obj_get_def)

lemma obj_get_obj_delete:
  "obj_get (obj_delete ob k) k' = (if k' = k then None else obj_get ob k')"
  by (induction ob) (auto simp: obj_get_def obj_delete_def)

lemma obj_delete_absent: "k \<notin> set (obj_keys ob) \<Longrightarrow> obj_delete ob k = ob"
  by (induction ob) (auto simp: obj_delete_def obj_keys_def)

lemma wf_obj_Nil: "wf_obj []"
  by (simp add: wf_obj_def)

lemma wf_obj_butlast: "wf_obj (ob @ [p]) \<Longrightarrow> wf_obj ob"
  by (auto simp: wf_obj_def sorted_wrt_append)

lemma wf_obj_tl: "wf_obj (p # ob) \<Longrightarrow> wf_obj ob"
  by (auto simp: wf_obj_def)

lemma obj_set_append:
  "wf_obj (ob @ [(k, v)]) \<Longrightarrow> obj_set ob k v = ob @ [(k, v)]"
proof (induction ob)
  case Nil
  then show ?case by simp
next
  case (Cons p ob)
  obtain k' v' where p: "p = (k', v')" by (cases p)
  from Cons.prems p have "k' \<noteq> k" and "\<not> key_before k k'" and "wf_obj (ob @ [(k, v)])"
    by (auto simp: wf_obj_def sorted_wrt_append)
  with Cons.IH p show ?case by simp
qed

lemma obj_spread_wf: "wf_obj ob \<Longrightarrow> obj_spread ob = ob"
proof (induction ob rule: rev_induct)
  case Nil
  then show ?case by (simp add: obj_spread_def)
next
  case (snoc p ob)
  then have "obj_spread ob = ob" using wf_obj_butlast by blast
  moreover have "obj_spread (ob @ [p]) = obj_set (obj_spread ob) (fst p) (snd p)"
    by (simp add: obj_spread_def)
  ultimately show ?case using snoc.prems obj_set_append[of ob "fst p" "snd p"] by simp
qed

lemma wf_obj_obj_delete: "wf_obj ob \<Longrightarrow> wf_obj (obj_delete ob k)"
  by (auto simp: wf_obj_def obj_delete_def distinct_map_filter sorted_wrt_map sorted_wrt_filter)

lemma keys_obj_set: "set (map fst (obj_set ob k v)) = insert k (set (map fst ob))"
proof (induction ob)
  case Nil
  show ?case by simp
next
  case (Cons p ob)
  obtain k' v' where p: "p = (k', v')" by (cases p)
  show ?case
  proof (cases "k' = k")
    case True
    with p show ?thesis by simp
  next
    case False
    with p Cons.IH show ?thesis by (cases "key_before k k'") auto
  qed
qed

lemma set_obj_set_keys: "fst ` set (obj_set ob k v) = insert k (fst ` set ob)"
  using keys_obj_set[of ob k v] by simp

lemma wf_obj_obj_set: "wf_obj ob \<Longrightarrow> wf_obj (obj_set ob k v)"
proof (induction ob)
  case Nil
  then show ?case by (simp add: wf_obj_def)
next
  case (Cons p ob)
  obtain k' v' where p: "p = (k', v')" by (cases p)
  have tl: "wf_obj ob" using Cons.prems wf_obj_tl by blast
  show ?case
  proof (cases "k' = k")
    case True
    with Cons.prems p show ?thesis by (simp add: wf_obj_def)
  next
    case False
    note ne = this
    show ?thesis
    proof (cases "key_before k k'")
      case True
      from Cons.prems p have later: "\<forall>b \<in> fst ` set ob. \<not> key_before b k' \<and> b \<noteq> k'"
        by (auto simp: wf_obj_def)
      have "\<forall>b \<in> fst ` set ob. \<not> key_before b k \<and> b \<noteq> k"
        using later True by (auto simp: key_before_def)
      moreover have "\<not> key_before k' k" using True by (auto simp: key_before_def)
      ultimately show ?thesis using Cons.prems p ne True
        by (auto simp: wf_obj_def)
    next
      case False
      from Cons.prems p have later: "\<forall>b \<in> fst ` set ob. \<not> key_before b k' \<and> b \<noteq> k'"
        by (auto simp: wf_obj_def)
      have "\<forall>b \<in> fst ` set (obj_set ob k v). \<not> key_before b k' \<and> b \<noteq> k'"
        using later False ne by (auto simp: set_obj_set_keys)
      with Cons.IH[OF tl] p ne False show ?thesis
        by (auto simp: wf_obj_def)
    qed
  qed
qed

lemma set_obj_set_subset: "set (obj_set ob k v) \<subseteq> insert (k, v) (set ob)"
proof (induction ob)
  case Nil
  show ?case by simp
next
  case (Cons p ob)
  obtain k' v' where p: "p = (k', v')" by (cases p)
  with Cons.IH show ?case by auto
qed

section \<open>Properties of the edit operations\<close>

lemma wf_state_spread: "wf_state st \<Longrightarrow> obj_spread st = st"
  by (simp add: wf_state_def obj_spread_wf)

lemma wf_state_config:
  assumes "wf_state st"
  shows "wf_obj (config_of st E)"
    and "config_of st E = (case obj_get st E of None \<Rightarrow> [] | Some c \<Rightarrow> c)"
proof -
  have *: "obj_get st E = Some c \<Longrightarrow> wf_obj c" for c
  proof -
    assume "obj_get st E = Some c"
    then have "(E, c) \<in> set st" by (simp add: obj_get_def map_of_SomeD)
    with assms show "wf_obj c" by (force simp: wf_state_def list_all_iff)
  qed
  show "config_of st E = (case obj_get st E of None \<Rightarrow> [] | Some c \<Rightarrow> c)"
    using * by (auto simp: config_of_def spread_opt_def obj_spread_wf split: option.splits)
  then show "wf_obj (config_of st E)"
    using * by (auto simp: wf_obj_Nil split: option.splits)
qed

lemma wf_state_obj_set:
  "wf_state st \<Longrightarrow> wf_obj c \<Longrightarrow> wf_state (obj_set st E c)"
  using set_obj_set_subset[of st E c]
  by (auto simp: wf_state_def wf_obj_obj_set list_all_iff)

lemma handlers_unfold:
  assumes "wf_state st"
  shows "handleUpdateValue st E key val = obj_set st E (obj_set (config_of st E) key (JString val))"
    and "handleAddKey st E key val =
           (if String_trim key = [] then st
            else obj_set st E (obj_set (config_of st E) key (JString val)))"
    and "handleRemoveKey st E key = obj_set st E (obj_delete (config_of st E) key)"
    and "handleUpdateKey st E oldKey newKey =
           (if oldKey = newKey then st
            else obj_set st E
                   (obj_set (obj_delete (config_of st E) oldKey) newKey
                      (case obj_get (config_of st E) oldKey of None \<Rightarrow> JUndefined | Some v \<Rightarrow> v)))"
  using wf_state_spread[OF assms]
  by (simp_all add: handleUpdateValue_def handleAddKey_def handleRemoveKey_def
        handleUpdateKey_def config_of_def Let_def)

lemma handlers_preserve_wf_state:
  assumes "wf_state st"
  shows "wf_state (handleUpdateValue st E key val)"
    and "wf_state (handleAddKey st E key val)"
    and "wf_state (handleRemoveKey st E key)"
    and "wf_state (handleUpdateKey st E oldKey newKey)"
  using assms wf_state_config(1)[OF assms, of E]
  by (simp_all add: handlers_unfold wf_state_obj_set wf_obj_obj_set wf_obj_obj_delete)

text \<open>
  Claim C10. On a state that is an object of objects, updating a value, renaming a key,
  adding a key and removing a key in the configuration of one environment leave the
  configuration stored under every other environment label as it was. Removing a key that
  the configuration of the environment does not have leaves that configuration the same
  list of properties, hence the same key-value mapping.
\<close>

theorem edit_operations_scoped:
  "wf_state st \<Longrightarrow>
   (\<forall>E'. E' \<noteq> E \<longrightarrow>
      obj_get (handleUpdateValue st E key val) E' = obj_get st E'
      \<and> obj_get (handleUpdateKey st E oldKey newKey) E' = obj_get st E'
      \<and> obj_get (handleAddKey st E key val) E' = obj_get st E'
      \<and> obj_get (handleRemoveKey st E key) E' = obj_get st E')
   \<and> (key \<notin> set (obj_keys (config_of st E)) \<longrightarrow>
        config_of (handleRemoveKey st E key) E = config_of st E
        \<and> (\<forall>k. obj_get (config_of (handleRemoveKey st E key) E) k = obj_get (config_of st E) k))"
proof (intro conjI allI impI)
  assume wf: "wf_state st"
  note u = handlers_unfold[OF wf]
  {
    fix E' assume ne: "E' \<noteq> E"
    from ne show "obj_get (handleUpdateValue st E key val) E' = obj_get st E'"
      by (simp add: u obj_get_obj_set)
    from ne show "obj_get (handleUpdateKey st E oldKey newKey) E' = obj_get st E'"
      by (simp add: u obj_get_obj_set)
    from ne show "obj_get (handleAddKey st E key val) E' = obj_get st E'"
      by (simp add: u obj_get_obj_set)
    from ne show "obj_get (handleRemoveKey st E key) E' = obj_get st E'"
      by (simp add: u obj_get_obj_set)
  }
  assume absent: "key \<notin> set (obj_keys (config_of st E))"
  have "config_of (handleRemoveKey st E key) E = obj_spread (config_of st E)"
    using absent by (simp add: u config_of_def[of "obj_set _ _ _"] obj_get_obj_set spread_opt_def
        obj_delete_absent)
  then show c: "config_of (handleRemoveKey st E key) E = config_of st E"
    using wf_state_config(1)[OF wf, of E] by (simp add: obj_spread_wf)
  fix k
  from c show "obj_get (config_of (handleRemoveKey st E key) E) k = obj_get (config_of st E) k"
    by simp
qed

lemma example_state_wf: "wf_state example_state"
  by (simp add: example_state_def wf_state_def wf_obj_def key_before_def is_array_index_def
      is_digit_def js_def)

theorem edit_operations_scoped_witness:
  "wf_state example_state \<and> js ''prod'' \<noteq> js ''dev''
   \<and> obj_get (handleUpdateValue example_state (js ''dev'') (js ''a'') (js ''9'')) (js ''prod'')
       = Some [(js ''b'', JString (js ''2''))]
   \<and> obj_get (handleUpdateKey example_state (js ''dev'') (js ''a'') (js ''c'')) (js ''prod'')
       = Some [(js ''b'', JString (js ''2''))]
   \<and> obj_get (handleAddKey example_state (js ''dev'') (js ''c'') (js ''3'')) (js ''prod'')
       = Some [(js ''b'', JString (js ''2''))]
   \<and> obj_get (handleRemoveKey example_state (js ''dev'') (js ''a'')) (js ''prod'')
       = Some [(js ''b'', JString (js ''2''))]
   \<and> js ''zz'' \<notin> set (obj_keys (config_of example_state (js ''dev'')))
   \<and> config_of (handleRemoveKey example_state (js ''dev'') (js ''zz'')) (js ''dev'')
       = [(js ''a'', JString (js ''1''))]"
proof -
  have ne: "js ''prod'' \<noteq> js ''dev''"
    by (simp add: js_def)
  have g: "obj_get example_state (js ''prod'') = Some [(js ''b'', JString (js ''2''))]"
    by (simp add: example_state_def obj_get_def js_def)
  have c: "config_of example_state (js ''dev'') = [(js ''a'', JString (js ''1''))]"
    unfolding wf_state_config(2)[OF example_state_wf]
    by (simp add: example_state_def obj_get_def)
  have ab: "js ''zz'' \<notin> set (obj_keys (config_of example_state (js ''dev'')))"
    unfolding c by (simp add: obj_keys_def js_def)
  note t1 = edit_operations_scoped[OF example_state_wf, of "js ''dev''" "js ''a''" "js ''9''"
      "js ''a''" "js ''c''"]
  note t2 = edit_operations_scoped[OF example_state_wf, of "js ''dev''" "js ''c''" "js ''3''"
      "js ''a''" "js ''c''"]
  note t3 = edit_operations_scoped[OF example_state_wf, of "js ''dev''" "js ''zz''" "js ''3''"
      "js ''a''" "js ''c''"]
  from t1 ne g have
    "obj_get (handleUpdateValue example_state (js ''dev'') (js ''a'') (js ''9'')) (js ''prod'')
       = Some [(js ''b'', JString (js ''2''))]"
    "obj_get (handleUpdateKey example_state (js ''dev'') (js ''a'') (js ''c'')) (js ''prod'')
       = Some [(js ''b'', JString (js ''2''))]"
    "obj_get (handleRemoveKey example_state (js ''dev'') (js ''a'')) (js ''prod'')
       = Some [(js ''b'', JString (js ''2''))]"
    by simp_all
  moreover from t2 ne g have
    "obj_get (handleAddKey example_state (js ''dev'') (js ''c'') (js ''3'')) (js ''prod'')
       = Some [(js ''b'', JString (js ''2''))]"
    by simp
  moreover from t3 ab c have
    "config_of (handleRemoveKey example_state (js ''dev'') (js ''zz'')) (js ''dev'')
       = [(js ''a'', JString (js ''1''))]"
    by simp
  ultimately show ?thesis using example_state_wf ne ab by blast
qed

section \<open>Properties of the snapshot codec\<close>

declare JSON_members.simps [simp del]

lemma unat_hexdigit: "n < 16 \<Longrightarrow> unat (hexdigit n) = (if n < 10 then 48 + n else 87 + n)"
proof -
  assume n: "n < 16"
  have "unat (word_of_nat (48 + n) :: code_unit) = 48 + n"
    using n by (subst unat_of_nat) simp
  moreover have "unat (word_of_nat (87 + n) :: code_unit) = 87 + n"
    using n by (subst unat_of_nat) simp
  ultimately show ?thesis
    unfolding hexdigit_def by presburger
qed

lemma unhex_hexdigit: "n < 16 \<Longrightarrow> unhex (hexdigit n) = Some n"
  by (simp add: unhex_def word_le_nat_alt unat_hexdigit)

lemma hex_digits_recompose:
  "((n div 4096 * 16 + n div 256 mod 16) * 16 + n div 16 mod 16) * 16 + n mod 16 = (n::nat)"
proof -
  have a: "n div 256 = n div 16 div 16" and b: "n div 4096 = n div 16 div 16 div 16"
    by (simp_all add: div_mult2_eq)
  show ?thesis unfolding a b by simp
qed

lemma hex4_unicode_digits:
  "hex4 (hexdigit (unat c div 4096)) (hexdigit (unat c div 256 mod 16))
        (hexdigit (unat c div 16 mod 16)) (hexdigit (unat c mod 16)) = Some c"
proof -
  have "unat c < 2 ^ LENGTH(16)" by (rule unsigned_less)
  then have d: "unat c div 4096 < 16" by simp
  have e: "(word_of_nat (((unat c div 4096 * 16 + unat c div 256 mod 16) * 16
               + unat c div 16 mod 16) * 16 + unat c mod 16) :: code_unit) = c"
    unfolding hex_digits_recompose by simp
  have u: "unhex (hexdigit (unat c div 4096)) = Some (unat c div 4096)"
    "unhex (hexdigit (unat c div 256 mod 16)) = Some (unat c div 256 mod 16)"
    "unhex (hexdigit (unat c div 16 mod 16)) = Some (unat c div 16 mod 16)"
    "unhex (hexdigit (unat c mod 16)) = Some (unat c mod 16)"
    by (simp_all add: unhex_hexdigit d)
  show ?thesis
    unfolding hex4_def u by (simp only: prod.case option.case e)
qed

lemma JSON_string_chars_close: "JSON_string_chars (0x22 # rest) = Some ([], rest)"
  by simp

lemma JSON_string_chars_escape:
  "JSON_string_chars (unicode_escape c @ tail) = cons_result c (JSON_string_chars tail)"
  by (simp add: unicode_escape_def hex4_unicode_digits)

lemma JSON_string_chars_surrogate:
  "is_high_surrogate c \<or> is_low_surrogate c \<Longrightarrow>
   JSON_string_chars (c # tail) = cons_result c (JSON_string_chars tail)"
  by (auto simp: is_high_surrogate_def is_low_surrogate_def word_le_nat_alt word_less_nat_alt)

lemma JSON_string_chars_quote_unit:
  "JSON_string_chars (quote_unit c @ tail) = cons_result c (JSON_string_chars tail)"
proof -
  consider "c = 0x08" | "c = 0x09" | "c = 0x0A" | "c = 0x0C" | "c = 0x0D" | "c = 0x22"
    | "c = 0x5C"
    | "c \<noteq> 0x08" "c \<noteq> 0x09" "c \<noteq> 0x0A" "c \<noteq> 0x0C" "c \<noteq> 0x0D" "c \<noteq> 0x22" "c \<noteq> 0x5C"
    by blast
  then show ?thesis
  proof cases
    case 8
    then have q: "quote_unit c = (if c < 0x20 then unicode_escape c else [c])"
      by (simp add: quote_unit_def)
    show ?thesis
    proof (cases "c < 0x20")
      case True
      with q show ?thesis by (simp add: JSON_string_chars_escape)
    next
      case False
      with q 8 show ?thesis by simp
    qed
  qed (simp_all add: quote_unit_def json_unescape_def)
qed

lemma cons_result_Some_eq: "cons_result c (Some (s, rest)) = Some (c # s, rest)"
  by (simp add: cons_result_def)

lemma JSON_string_chars_quote_units:
  "JSON_string_chars (quote_units s @ 0x22 # rest) = Some (s, rest)"
proof (induction s rule: quote_units.induct)
  case 1
  show ?case by simp
next
  case (2 c)
  show ?case
    by (simp add: JSON_string_chars_escape JSON_string_chars_quote_unit
        JSON_string_chars_close cons_result_Some_eq del: JSON_string_chars.simps)
next
  case (3 c d ds)
  then show ?case
    by (simp add: JSON_string_chars_escape JSON_string_chars_quote_unit
        JSON_string_chars_surrogate cons_result_Some_eq del: JSON_string_chars.simps)
qed

lemma JSON_string_QuoteJSONString:
  "JSON_string (QuoteJSONString s @ rest) = Some (s, rest)"
  by (simp add: JSON_string_def QuoteJSONString_def JSON_string_chars_quote_units)

lemma skip_ws_simps:
  "skip_ws (0x09 # r) = skip_ws r"
  "skip_ws (0x0A # r) = skip_ws r"
  "skip_ws (0x0D # r) = skip_ws r"
  "skip_ws (0x20 # r) = skip_ws r"
  "skip_ws (0x22 # r) = 0x22 # r"
  "skip_ws (0x2C # r) = 0x2C # r"
  "skip_ws (0x3A # r) = 0x3A # r"
  "skip_ws (0x7B # r) = 0x7B # r"
  "skip_ws (0x7D # r) = 0x7D # r"
  "skip_ws [] = []"
  by (simp_all add: skip_ws_def is_json_ws_def)

lemma skip_ws_QuoteJSONString: "skip_ws (QuoteJSONString s @ r) = QuoteJSONString s @ r"
  by (simp add: QuoteJSONString_def skip_ws_simps)

lemma JSON_members_member:
  "JSON_members (member_text m @ d # r4) =
     (if d = 0x7D then Some ([m], r4)
      else if d = 0x2C then
        (case JSON_members (skip_ws r4) of
           None \<Rightarrow> None
         | Some (ms, rest) \<Rightarrow> Some (m # ms, rest))
      else None)"
  if "\<not> is_json_ws d"
proof -
  obtain k v where m: "m = (k, v)" by (cases m)
  have s: "skip_ws (d # r4) = d # r4"
    using that by (simp add: skip_ws_def)
  show ?thesis
    unfolding m member_text_def
    by (subst JSON_members.simps)
       (simp add: JSON_string_QuoteJSONString skip_ws_simps skip_ws_QuoteJSONString s)
qed

lemma JSON_members_text:
  "ms \<noteq> [] \<Longrightarrow> JSON_members (skip_ws (members_text ms @ 0x0A # 0x7D # rest)) = Some (ms, rest)"
proof (induction ms rule: members_text.induct)
  case 1
  then show ?case by simp
next
  case (2 m)
  have "JSON_members (member_text m @ 0x0A # 0x7D # rest) = Some ([m], rest)"
  proof -
    obtain k v where m: "m = (k, v)" by (cases m)
    show ?thesis
      unfolding m member_text_def
      by (subst JSON_members.simps)
         (simp add: JSON_string_QuoteJSONString skip_ws_simps skip_ws_QuoteJSONString)
  qed
  then show ?case
    by (simp add: skip_ws_simps member_text_def skip_ws_QuoteJSONString)
next
  case (3 m m' ms)
  have ih: "JSON_members (skip_ws (members_text (m' # ms) @ 0x0A # 0x7D # rest))
              = Some (m' # ms, rest)"
    using 3 by simp
  have "JSON_members (member_text m @ 0x2C # members_text (m' # ms) @ 0x0A # 0x7D # rest)
          = Some (m # m' # ms, rest)"
    by (subst JSON_members_member) (simp_all add: is_json_ws_def ih)
  then show ?case
    by (simp add: skip_ws_simps member_text_def skip_ws_QuoteJSONString)
qed

lemma foldl_string_members:
  "list_all (\<lambda>p. snd p \<noteq> JUndefined) s \<Longrightarrow>
   foldl (\<lambda>ob m. obj_set ob (fst m) (JString (snd m))) acc (string_members s)
     = foldl (\<lambda>acc p. obj_set acc (fst p) (snd p)) acc s"
proof (induction s arbitrary: acc)
  case Nil
  show ?case by simp
next
  case (Cons p s)
  obtain k v where p: "p = (k, v)" by (cases p)
  with Cons.prems obtain x where v: "v = JString x" by (cases v) auto
  from Cons p v show ?case by simp
qed

lemma string_members_Nil: "list_all (\<lambda>p. snd p \<noteq> JUndefined) s \<Longrightarrow> string_members s = [] \<longleftrightarrow> s = []"
proof (cases s)
  case Nil
  then show ?thesis by simp
next
  case (Cons p s')
  assume a: "list_all (\<lambda>p. snd p \<noteq> JUndefined) s"
  obtain k v where p: "p = (k, v)" by (cases p)
  with a Cons obtain x where v: "v = JString x" by (cases v) auto
  from Cons p v show ?thesis by simp
qed

text \<open>
  Claim C6. For every snapshot that is an object (distinct keys in enumeration order)
  and whose values are all strings, parsing the text that \<open>JSON.stringify(s, null, 2)\<close>
  produces gives back the snapshot itself: the same keys with the same values in the same
  order. Keys and values may be any sequences of code units, lone surrogates included.
\<close>

theorem JSON_roundtrip:
  "wf_obj s \<Longrightarrow> list_all (\<lambda>p. snd p \<noteq> JUndefined) s \<Longrightarrow> JSON_parse (JSON_stringify s) = Some s"
proof -
  assume wf: "wf_obj s" and str: "list_all (\<lambda>p. snd p \<noteq> JUndefined) s"
  show ?thesis
  proof (cases "s = []")
    case True
    then show ?thesis
      by (simp add: JSON_stringify_def JSON_parse_def skip_ws_simps)
  next
    case False
    with str have ne: "string_members s \<noteq> []"
      by (simp add: string_members_Nil)
    then obtain m ms where ms: "string_members s = m # ms"
      by (cases "string_members s") auto
    have t: "JSON_stringify s = 0x7B # members_text (string_members s) @ [0x0A, 0x7D]"
      using ne by (simp add: JSON_stringify_def)
    have first: "skip_ws (members_text (string_members s) @ [0x0A, 0x7D])
                   = 0x22 # tl (skip_ws (members_text (string_members s) @ [0x0A, 0x7D]))"
      unfolding ms
      by (cases ms) (simp_all add: skip_ws_simps member_text_def QuoteJSONString_def)
    have mem: "JSON_members (skip_ws (members_text (string_members s) @ [0x0A, 0x7D]))
                 = Some (string_members s, [])"
      using JSON_members_text[OF ne, of "[]"] by simp
    have "JSON_parse (JSON_stringify s)
            = Some (foldl (\<lambda>ob m. obj_set ob (fst m) (JString (snd m))) [] (string_members s))"
      unfolding t JSON_parse_def
      by (subst skip_ws_simps, simp, subst first, simp add: mem skip_ws_simps)
    also have "\<dots> = Some (obj_spread s)"
      using foldl_string_members[OF str] by (simp add: obj_spread_def)
    also have "\<dots> = Some s"
      using wf by (simp add: obj_spread_wf)
    finally show ?thesis .
  qed
qed

lemma example_snapshot_wf:
  "wf_obj example_snapshot \<and> list_all (\<lambda>p. snd p \<noteq> JUndefined) example_snapshot"
  by (simp add: example_snapshot_def wf_obj_def key_before_def is_array_index_def
      is_digit_def js_def)

lemma JSON_stringify_example:
  "JSON_stringify example_snapshot =
     [0x7B, 0x0A, 0x20, 0x20, 0x22, 0x61, 0x22, 0x3A, 0x20, 0x22, 0x31, 0x22, 0x2C,
      0x0A, 0x20, 0x20, 0x22, 0x62, 0x22, 0x3A, 0x20, 0x22, 0x32, 0x22, 0x0A, 0x7D]"
  by (simp add: example_snapshot_def JSON_stringify_def member_text_def QuoteJSONString_def
      quote_unit_def is_high_surrogate_def is_low_surrogate_def js_def)

theorem JSON_roundtrip_witness:
  "wf_obj example_snapshot \<and> list_all (\<lambda>p. snd p \<noteq> JUndefined) example_snapshot
   \<and> JSON_parse [0x7B, 0x0A, 0x20, 0x20, 0x22, 0x61, 0x22, 0x3A, 0x20, 0x22, 0x31, 0x22, 0x2C,
        0x0A, 0x20, 0x20, 0x22, 0x62, 0x22, 0x3A, 0x20, 0x22, 0x32, 0x22, 0x0A, 0x7D]
       = Some example_snapshot"
  using JSON_roundtrip[of example_snapshot] example_snapshot_wf JSON_stringify_example
  by simp

lemma QuoteJSONString_example:
  "QuoteJSONString [0x61, 0x22, 0x5C, 0x0A, 0x01, 0xD83D, 0xDD17, 0xDD17, 0xE9]
     = [0x22, 0x61, 0x5C, 0x22, 0x5C, 0x5C, 0x5C, 0x6E, 0x5C, 0x75, 0x30, 0x30, 0x30, 0x31,
        0xD83D, 0xDD17, 0x5C, 0x75, 0x64, 0x64, 0x31, 0x37, 0xE9, 0x22]"
  by (simp add: QuoteJSONString_def quote_unit_def is_high_surrogate_def is_low_surrogate_def
      unicode_escape_def hexdigit_def)

text \<open>
  The text \<open>{ "b" : "x", "10":"y", "9":"A\n", "b":"z" }\<close>: array-index keys come first
  in numeric order, and the repeated key keeps its place and takes the last value.
\<close>

lemma JSON_parse_example:
  "JSON_parse (js ''{ '' @ QuoteJSONString (js ''b'') @ js '' : '' @ QuoteJSONString (js ''x'')
       @ js '', '' @ QuoteJSONString (js ''10'') @ js '':'' @ QuoteJSONString (js ''y'')
       @ js '', '' @ QuoteJSONString (js ''9'') @ js '':''
       @ [0x22, 0x5C, 0x75, 0x30, 0x30, 0x34, 0x31, 0x5C, 0x6E, 0x22]
       @ js '', '' @ QuoteJSONString (js ''b'') @ js '':'' @ QuoteJSONString (js ''z'')
       @ js '' } '')
     = Some [(js ''9'', JString [0x41, 0x0A]), (js ''10'', JString (js ''y'')),
             (js ''b'', JString (js ''z''))]"
  by (simp add: JSON_parse_def JSON_members.simps JSON_string_def skip_ws_def is_json_ws_def
      json_unescape_def hex4_def unhex_def cons_result_def key_before_def is_array_index_def
      is_digit_def decimal_val_def js_def QuoteJSONString_def quote_unit_def
      is_high_surrogate_def is_low_surrogate_def)

text \<open>A number as a value, a trailing comma, text after the object and the empty text.\<close>

lemma JSON_parse_rejects:
  "JSON_parse (js ''{'' @ QuoteJSONString (js ''a'') @ js '':1}'') = None"
  "JSON_parse (js ''{'' @ QuoteJSONString (js ''a'') @ js '':'' @ QuoteJSONString (js ''1'')
                 @ js '',}'') = None"
  "JSON_parse (js ''{'' @ QuoteJSONString (js ''a'') @ js '':'' @ QuoteJSONString (js ''1'')
                 @ js ''} x'') = None"
  "JSON_parse [] = None"
  by (simp_all add: JSON_parse_def JSON_members.simps JSON_string_def skip_ws_def is_json_ws_def
      json_unescape_def cons_result_def js_def QuoteJSONString_def quote_unit_def
      is_high_surrogate_def is_low_surrogate_def)

lemma roundtrip_drops_undefined:
  "JSON_parse (JSON_stringify [(js ''a'', JUndefined)]) = Some []"
  by (simp add: JSON_stringify_def JSON_parse_def skip_ws_def is_json_ws_def)

section \<open>Properties of the content uploader\<close>

lemma truthy_iff: "truthy v \<longleftrightarrow> (\<exists>j. v = Some j \<and> j \<noteq> [])"
  by (cases v) (auto simp: truthy_def)

lemma getPinataInstance_Inr:
  "getPinataInstance env arg = Inr sdk \<longleftrightarrow>
     (truthy (js_or arg (VITE_PINATA_JWT env))
      \<and> sdk = \<lparr>pinataJwt = the (js_or arg (VITE_PINATA_JWT env)),
                pinataGateway = js ''https://gateway.pinata.cloud''\<rparr>)"
  by (auto simp: getPinataInstance_def truthy_iff split: option.splits)

lemma getPinataInstance_Inl:
  "getPinataInstance env arg = Inl e \<longleftrightarrow>
     (\<not> truthy (js_or arg (VITE_PINATA_JWT env)) \<and> e = ErrorObject jwt_required)"
  by (auto simp: getPinataInstance_def truthy_iff split: option.splits)

lemma upload_trace_jwt:
  "getPinataInstance env pinataJWT = Inr sdk \<Longrightarrow>
   ev \<in> set (snd (uploadConfigToIPFS env svc now config environmentName pinataJWT)) \<Longrightarrow>
   event_jwt ev = Some (pinataJwt sdk)"
  by (auto simp: uploadConfigToIPFS_def uploadConfigToIPFS_try_def Let_def split: sum.splits)

lemma upload_not_configured:
  "\<not> isPinataConfigured env pinataJWT \<Longrightarrow>
   uploadConfigToIPFS env svc now config environmentName pinataJWT =
     (Inr \<lparr>success = False, ipfsHash = None, error = Some jwt_required\<rparr>, [])"
proof -
  assume "\<not> isPinataConfigured env pinataJWT"
  then have "getPinataInstance env pinataJWT = Inl (ErrorObject jwt_required)"
    by (simp add: getPinataInstance_Inl isPinataConfigured_def)
  then show ?thesis
    by (simp add: uploadConfigToIPFS_def uploadConfigToIPFS_try_def)
qed

lemma upload_auth_rejected:
  "getPinataInstance env pinataJWT = Inr sdk \<Longrightarrow> testAuthentication svc sdk = Inl e \<Longrightarrow>
   snd (uploadConfigToIPFS env svc now config environmentName pinataJWT) = [TestAuthentication sdk]"
  by (simp add: uploadConfigToIPFS_def uploadConfigToIPFS_try_def)

lemmas example_upload_defs =
  uploadConfigToIPFS_def uploadConfigToIPFS_try_def getPinataInstance_def js_or_def truthy_def
  example_service_def JSON_stringify_def Let_def

lemma example_upload:
  "uploadConfigToIPFS \<lparr>VITE_PINATA_JWT = None\<rparr> (example_service (js ''own'')) now
     example_snapshot (js ''dev'') (Some (js ''own''))
   = (Inr \<lparr>success = True, ipfsHash = Some (js ''cid-of-dev''), error = None\<rparr>,
      [TestAuthentication \<lparr>pinataJwt = js ''own'',
                           pinataGateway = js ''https://gateway.pinata.cloud''\<rparr>,
       UploadPublicFile \<lparr>pinataJwt = js ''own'',
                         pinataGateway = js ''https://gateway.pinata.cloud''\<rparr>
         \<lparr>file_bits = JSON_stringify example_snapshot, file_name = js ''dev'',
          file_type = js ''application/json''\<rparr>
         \<lparr>metadata_name = js ''dev'', keyvalues_environment = js ''dev'',
          keyvalues_type = js ''configuration'', keyvalues_timestamp = now\<rparr>])"
proof -
  have ne: "JSON_stringify example_snapshot \<noteq> []"
    by (simp add: JSON_stringify_example)
  have j: "js ''own'' \<noteq> []" and d: "js ''cid-of-'' @ js ''dev'' = js ''cid-of-dev''"
    by (simp_all add: js_def)
  show ?thesis
    using ne j d
    by (simp add: uploadConfigToIPFS_def uploadConfigToIPFS_try_def getPinataInstance_def
        js_or_def truthy_def example_service_def Let_def)
qed

text \<open>
  Claim C9. \<open>isPinataConfigured\<close> answers from its argument and the build-time variable
  alone: it is true exactly when one of the two is a non-empty string, which is exactly
  when \<open>getPinataInstance\<close> returns an instance instead of throwing. Its body is one
  expression without a call or an assignment, so the model is a function of these two
  inputs with no service parameter and no trace.
\<close>

theorem isPinataConfigured_iff:
  "(isPinataConfigured env pinataJWT \<longleftrightarrow>
      ((\<exists>j. pinataJWT = Some j \<and> j \<noteq> []) \<or> (\<exists>j. VITE_PINATA_JWT env = Some j \<and> j \<noteq> [])))
   \<and> (isPinataConfigured env pinataJWT \<longleftrightarrow> (\<exists>sdk. getPinataInstance env pinataJWT = Inr sdk))"
  by (auto simp: isPinataConfigured_def getPinataInstance_Inr js_or_def truthy_iff)

theorem isPinataConfigured_iff_witness:
  "isPinataConfigured \<lparr>VITE_PINATA_JWT = None\<rparr> (Some (js ''own''))
   \<and> isPinataConfigured \<lparr>VITE_PINATA_JWT = Some (js ''shared'')\<rparr> None
   \<and> \<not> isPinataConfigured \<lparr>VITE_PINATA_JWT = Some []\<rparr> None
   \<and> \<not> isPinataConfigured \<lparr>VITE_PINATA_JWT = None\<rparr> (Some [])"
  using isPinataConfigured_iff[of "\<lparr>VITE_PINATA_JWT = None\<rparr>" "Some (js ''own'')"]
        isPinataConfigured_iff[of "\<lparr>VITE_PINATA_JWT = Some (js ''shared'')\<rparr>" None]
        isPinataConfigured_iff[of "\<lparr>VITE_PINATA_JWT = Some []\<rparr>" None]
        isPinataConfigured_iff[of "\<lparr>VITE_PINATA_JWT = None\<rparr>" "Some []"]
  by (simp add: js_def)

text \<open>
  Claim C8. When the credential passed to the upload is a non-empty string, the SDK
  instance is built with it and every call the upload makes to the pinning service
  carries it, whatever \<open>VITE_PINATA_JWT\<close> holds. An instance carries a credential other
  than the one passed only when the one passed is \<open>undefined\<close> or empty, and then it is
  the value of \<open>VITE_PINATA_JWT\<close>.
\<close>

theorem credential_precedence:
  "(\<forall>j. pinataJWT = Some j \<and> j \<noteq> [] \<longrightarrow>
      (\<exists>sdk. getPinataInstance env pinataJWT = Inr sdk \<and> pinataJwt sdk = j)
      \<and> (\<forall>ev \<in> set (snd (uploadConfigToIPFS env svc now config environmentName pinataJWT)).
            event_jwt ev = Some j))
   \<and> (\<forall>sdk. getPinataInstance env pinataJWT = Inr sdk \<and> Some (pinataJwt sdk) \<noteq> pinataJWT \<longrightarrow>
         (pinataJWT = None \<or> pinataJWT = Some []) \<and> VITE_PINATA_JWT env = Some (pinataJwt sdk)
         \<and> (\<forall>ev \<in> set (snd (uploadConfigToIPFS env svc now config environmentName pinataJWT)).
               event_jwt ev = VITE_PINATA_JWT env))"
proof (intro conjI allI impI ballI)
  fix j assume a: "pinataJWT = Some j \<and> j \<noteq> []"
  then have g: "getPinataInstance env pinataJWT
                  = Inr \<lparr>pinataJwt = j, pinataGateway = js ''https://gateway.pinata.cloud''\<rparr>"
    by (simp add: getPinataInstance_Inr js_or_def truthy_iff)
  then show "\<exists>sdk. getPinataInstance env pinataJWT = Inr sdk \<and> pinataJwt sdk = j" by simp
  fix ev assume "ev \<in> set (snd (uploadConfigToIPFS env svc now config environmentName pinataJWT))"
  with upload_trace_jwt[OF g] show "event_jwt ev = Some j" by simp
next
  fix sdk assume a: "getPinataInstance env pinataJWT = Inr sdk \<and> Some (pinataJwt sdk) \<noteq> pinataJWT"
  then have nt: "\<not> truthy pinataJWT"
    by (auto simp: getPinataInstance_Inr js_or_def truthy_iff split: if_splits)
  then show "pinataJWT = None \<or> pinataJWT = Some []"
    by (cases pinataJWT) (auto simp: truthy_def)
  from a nt have "truthy (VITE_PINATA_JWT env)"
    and "pinataJwt sdk = the (VITE_PINATA_JWT env)"
    by (simp_all add: getPinataInstance_Inr js_or_def)
  then show e: "VITE_PINATA_JWT env = Some (pinataJwt sdk)"
    by (auto simp: truthy_iff)
  fix ev assume "ev \<in> set (snd (uploadConfigToIPFS env svc now config environmentName pinataJWT))"
  with upload_trace_jwt a e show "event_jwt ev = VITE_PINATA_JWT env" by metis
qed

theorem credential_precedence_witness:
  "Some (js ''own'') = Some (js ''own'') \<and> js ''own'' \<noteq> []
   \<and> map event_jwt (snd (uploadConfigToIPFS \<lparr>VITE_PINATA_JWT = Some (js ''shared'')\<rparr>
                          (example_service (js ''own'')) (js ''t'') [] (js ''dev'')
                          (Some (js ''own''))))
       = [Some (js ''own''), Some (js ''own'')]
   \<and> getPinataInstance \<lparr>VITE_PINATA_JWT = Some (js ''shared'')\<rparr> (Some [])
       = Inr \<lparr>pinataJwt = js ''shared'', pinataGateway = js ''https://gateway.pinata.cloud''\<rparr>
   \<and> Some (js ''shared'') \<noteq> Some []
   \<and> map event_jwt (snd (uploadConfigToIPFS \<lparr>VITE_PINATA_JWT = Some (js ''shared'')\<rparr>
                          (example_service (js ''shared'')) (js ''t'') [] (js ''dev'')
                          (Some [])))
       = [Some (js ''shared''), Some (js ''shared'')]"
proof -
  let ?env = "\<lparr>VITE_PINATA_JWT = Some (js ''shared'')\<rparr>"
  let ?tr = "snd (uploadConfigToIPFS ?env (example_service (js ''own'')) (js ''t'') [] (js ''dev'')
                    (Some (js ''own'')))"
  let ?tr' = "snd (uploadConfigToIPFS ?env (example_service (js ''shared'')) (js ''t'') []
                     (js ''dev'') (Some []))"
  let ?sdk = "\<lparr>pinataJwt = js ''shared'', pinataGateway = js ''https://gateway.pinata.cloud''\<rparr>"
  have h1: "Some (js ''own'') = Some (js ''own'')" by simp
  have h2: "js ''own'' \<noteq> []" by (simp add: js_def)
  have "length ?tr = 2"
    by (simp add: example_upload_defs js_def)
  then obtain a b where tr: "?tr = [a, b]"
    by (auto simp: length_Suc_conv numeral_2_eq_2)
  note own_rule = credential_precedence[of "Some (js ''own'')" ?env "example_service (js ''own'')"
      "js ''t''" "[]" "js ''dev''", THEN conjunct1, THEN spec, of "js ''own''", THEN mp,
      OF conjI[OF h1 h2], THEN conjunct2]
  have own: "map event_jwt ?tr = [Some (js ''own''), Some (js ''own'')]"
    using own_rule unfolding tr by simp
  have g: "getPinataInstance ?env (Some []) = Inr ?sdk"
    by (simp add: getPinataInstance_def js_or_def truthy_def js_def)
  have ne: "Some (js ''shared'') \<noteq> Some []"
    by (simp add: js_def)
  have k: "getPinataInstance ?env (Some []) = Inr ?sdk \<and> Some (pinataJwt ?sdk) \<noteq> Some []"
    using g ne by simp
  have "length ?tr' = 2"
    by (simp add: example_upload_defs js_def)
  then obtain a' b' where tr': "?tr' = [a', b']"
    by (auto simp: length_Suc_conv numeral_2_eq_2)
  note shared_rule = credential_precedence[of "Some []" ?env "example_service (js ''shared'')"
      "js ''t''" "[]" "js ''dev''", THEN conjunct2, THEN spec, of ?sdk, THEN mp, OF k,
      THEN conjunct2, THEN conjunct2]
  have shared: "map event_jwt ?tr' = [Some (js ''shared''), Some (js ''shared'')]"
    using shared_rule unfolding tr' by simp
  show ?thesis
    by (intro conjI) (rule h1 h2 own g ne shared)+
qed

text \<open>
  Claim C4. The promise returned by \<open>uploadConfigToIPFS\<close> is always fulfilled, never
  rejected. The result is either \<open>{success: true, ipfsHash}\<close> or \<open>{success: false, error}\<close>;
  it is a success exactly when the pinning service accepted the file, with the identifier
  the service returned; a missing credential, a rejected authentication and a failed
  transfer are reported through \<open>error\<close> with the message of what was thrown.
\<close>

theorem uploadConfigToIPFS_never_rejects:
  "\<exists>r tr. uploadConfigToIPFS env svc now config environmentName pinataJWT = (Inr r, tr)
     \<and> ((success r \<and> (\<exists>c. ipfsHash r = Some c) \<and> error r = None)
        \<or> (\<not> success r \<and> ipfsHash r = None \<and> (\<exists>m. error r = Some m)))
     \<and> (success r \<longleftrightarrow>
          (\<exists>sdk file options resp. UploadPublicFile sdk file options \<in> set tr
             \<and> upload_public_file svc sdk file options = Inr resp
             \<and> ipfsHash r = Some (cid resp)))
     \<and> (\<not> isPinataConfigured env pinataJWT \<longrightarrow> error r = Some jwt_required)
     \<and> (\<forall>sdk m. TestAuthentication sdk \<in> set tr
            \<and> testAuthentication svc sdk = Inl (ErrorObject m) \<longrightarrow> error r = Some m)
     \<and> (\<forall>sdk file options m. UploadPublicFile sdk file options \<in> set tr
            \<and> upload_public_file svc sdk file options = Inl (ErrorObject m) \<longrightarrow> error r = Some m)"
proof (cases "getPinataInstance env pinataJWT")
  case (Inl e)
  then have "\<not> isPinataConfigured env pinataJWT"
    by (simp add: getPinataInstance_Inl isPinataConfigured_def)
  from upload_not_configured[OF this] show ?thesis
    by simp
next
  case (Inr sdk)
  then have c: "isPinataConfigured env pinataJWT"
    by (simp add: getPinataInstance_Inr isPinataConfigured_def)
  show ?thesis
  proof (cases "testAuthentication svc sdk")
    case (Inl e)
    with Inr c show ?thesis
      by (cases e) (simp_all add: uploadConfigToIPFS_def uploadConfigToIPFS_try_def)
  next
    case auth: (Inr u)
    define fl where "fl = \<lparr>file_bits = JSON_stringify config, file_name = environmentName,
                            file_type = js ''application/json''\<rparr>"
    define options where "options = \<lparr>metadata_name = environmentName,
                               keyvalues_environment = environmentName,
                               keyvalues_type = js ''configuration'',
                               keyvalues_timestamp = now\<rparr>"
    show ?thesis
    proof (cases "upload_public_file svc sdk fl options")
      case (Inl e)
      with Inr c auth show ?thesis
        by (cases e)
           (simp_all add: uploadConfigToIPFS_def uploadConfigToIPFS_try_def Let_def
              fl_def options_def)
    next
      case (Inr resp)
      with \<open>getPinataInstance env pinataJWT = Inr sdk\<close> c auth show ?thesis
        by (simp add: uploadConfigToIPFS_def uploadConfigToIPFS_try_def Let_def
              fl_def options_def)
    qed
  qed
qed

theorem uploadConfigToIPFS_never_rejects_witness:
  "(\<exists>tr. uploadConfigToIPFS \<lparr>VITE_PINATA_JWT = Some (js ''shared'')\<rparr>
          (example_service (js ''own'')) (js ''t'') [] (js ''dev'') None
        = (Inr \<lparr>success = False, ipfsHash = None, error = Some (js ''Authentication failed'')\<rparr>, tr))
   \<and> \<not> isPinataConfigured \<lparr>VITE_PINATA_JWT = None\<rparr> None
   \<and> (\<exists>tr. uploadConfigToIPFS \<lparr>VITE_PINATA_JWT = None\<rparr>
          (example_service (js ''own'')) (js ''t'') [] (js ''dev'') None
        = (Inr \<lparr>success = False, ipfsHash = None, error = Some jwt_required\<rparr>, tr))
   \<and> (\<exists>tr. uploadConfigToIPFS \<lparr>VITE_PINATA_JWT = None\<rparr>
          (example_service (js ''own'')) (js ''t'') example_snapshot (js ''dev'') (Some (js ''own''))
        = (Inr \<lparr>success = True, ipfsHash = Some (js ''cid-of-dev''), error = None\<rparr>, tr))"
proof -
  let ?sdk = "\<lparr>pinataJwt = js ''shared'', pinataGateway = js ''https://gateway.pinata.cloud''\<rparr>"
  let ?u = "uploadConfigToIPFS \<lparr>VITE_PINATA_JWT = Some (js ''shared'')\<rparr>
              (example_service (js ''own'')) (js ''t'') [] (js ''dev'') None"
  have t: "snd ?u = [TestAuthentication ?sdk]"
    by (simp add: example_upload_defs js_def)
  have a: "testAuthentication (example_service (js ''own'')) ?sdk
             = Inl (ErrorObject (js ''Authentication failed''))"
    by (simp add: example_service_def js_def)
  from uploadConfigToIPFS_never_rejects[of "\<lparr>VITE_PINATA_JWT = Some (js ''shared'')\<rparr>"
      "example_service (js ''own'')" "js ''t''" "[]" "js ''dev''" None]
  obtain r tr where u: "?u = (Inr r, tr)"
    and shape: "(success r \<and> (\<exists>c. ipfsHash r = Some c) \<and> error r = None)
        \<or> (\<not> success r \<and> ipfsHash r = None \<and> (\<exists>m. error r = Some m))"
    and auth: "\<forall>sdk m. TestAuthentication sdk \<in> set tr
            \<and> testAuthentication (example_service (js ''own'')) sdk = Inl (ErrorObject m)
            \<longrightarrow> error r = Some m"
    by blast
  from u t have "tr = [TestAuthentication ?sdk]" by simp
  with auth a have e: "error r = Some (js ''Authentication failed'')" by simp
  with shape have "\<not> success r \<and> ipfsHash r = None" by auto
  with e have "r = \<lparr>success = False, ipfsHash = None, error = Some (js ''Authentication failed'')\<rparr>"
    by simp
  with u have c1: "\<exists>tr. ?u = (Inr \<lparr>success = False, ipfsHash = None,
                                   error = Some (js ''Authentication failed'')\<rparr>, tr)"
    by blast
  have n: "\<not> isPinataConfigured \<lparr>VITE_PINATA_JWT = None\<rparr> None"
    by (simp add: isPinataConfigured_def js_or_def truthy_def)
  let ?v = "uploadConfigToIPFS \<lparr>VITE_PINATA_JWT = None\<rparr>
              (example_service (js ''own'')) (js ''t'') [] (js ''dev'') None"
  from uploadConfigToIPFS_never_rejects[of "\<lparr>VITE_PINATA_JWT = None\<rparr>"
      "example_service (js ''own'')" "js ''t''" "[]" "js ''dev''" None] n
  obtain r' tr' where v: "?v = (Inr r', tr')"
    and shape': "(success r' \<and> (\<exists>c. ipfsHash r' = Some c) \<and> error r' = None)
        \<or> (\<not> success r' \<and> ipfsHash r' = None \<and> (\<exists>m. error r' = Some m))"
    and e': "error r' = Some jwt_required"
    by blast
  from shape' e' have "\<not> success r' \<and> ipfsHash r' = None" by auto
  with e' have "r' = \<lparr>success = False, ipfsHash = None, error = Some jwt_required\<rparr>"
    by simp
  with v have c2: "\<exists>tr. ?v = (Inr \<lparr>success = False, ipfsHash = None, error = Some jwt_required\<rparr>, tr)"
    by blast
  have c3: "\<exists>tr. uploadConfigToIPFS \<lparr>VITE_PINATA_JWT = None\<rparr>
          (example_service (js ''own'')) (js ''t'') example_snapshot (js ''dev'') (Some (js ''own''))
        = (Inr \<lparr>success = True, ipfsHash = Some (js ''cid-of-dev''), error = None\<rparr>, tr)"
    by (simp add: example_upload)
  from c1 n c2 c3 show ?thesis by blast
qed

text \<open>
  Claim C5. Without a credential the upload fails with the configuration message and
  makes no call to the pinning service. When the service rejects the authentication test
  the only call made is that test, and the result is a failure. Every call that hands a
  file to the service comes after an authentication test that succeeded.
\<close>

theorem credential_checked_before_transfer:
  "(\<not> isPinataConfigured env pinataJWT \<longrightarrow>
      uploadConfigToIPFS env svc now config environmentName pinataJWT =
        (Inr \<lparr>success = False, ipfsHash = None, error = Some jwt_required\<rparr>, []))
   \<and> (\<forall>sdk e. getPinataInstance env pinataJWT = Inr sdk \<and> testAuthentication svc sdk = Inl e \<longrightarrow>
         snd (uploadConfigToIPFS env svc now config environmentName pinataJWT)
           = [TestAuthentication sdk]
         \<and> (\<exists>m. fst (uploadConfigToIPFS env svc now config environmentName pinataJWT)
                  = Inr \<lparr>success = False, ipfsHash = None, error = Some m\<rparr>))
   \<and> (\<forall>i. i < length (snd (uploadConfigToIPFS env svc now config environmentName pinataJWT))
         \<and> is_upload (snd (uploadConfigToIPFS env svc now config environmentName pinataJWT) ! i) \<longrightarrow>
         (\<exists>j < i. \<exists>sdk.
            snd (uploadConfigToIPFS env svc now config environmentName pinataJWT) ! j
              = TestAuthentication sdk
            \<and> testAuthentication svc sdk = Inr ()
            \<and> getPinataInstance env pinataJWT = Inr sdk))"
proof (intro conjI allI impI)
  assume "\<not> isPinataConfigured env pinataJWT"
  then show "uploadConfigToIPFS env svc now config environmentName pinataJWT =
        (Inr \<lparr>success = False, ipfsHash = None, error = Some jwt_required\<rparr>, [])"
    by (rule upload_not_configured)
next
  fix sdk e
  assume a: "getPinataInstance env pinataJWT = Inr sdk \<and> testAuthentication svc sdk = Inl e"
  then show "snd (uploadConfigToIPFS env svc now config environmentName pinataJWT)
           = [TestAuthentication sdk]"
    by (simp add: upload_auth_rejected)
  from a show "\<exists>m. fst (uploadConfigToIPFS env svc now config environmentName pinataJWT)
                  = Inr \<lparr>success = False, ipfsHash = None, error = Some m\<rparr>"
    by (simp add: uploadConfigToIPFS_def uploadConfigToIPFS_try_def)
next
  fix i
  let ?tr = "snd (uploadConfigToIPFS env svc now config environmentName pinataJWT)"
  assume a: "i < length ?tr \<and> is_upload (?tr ! i)"
  show "\<exists>j < i. \<exists>sdk. ?tr ! j = TestAuthentication sdk \<and> testAuthentication svc sdk = Inr ()
           \<and> getPinataInstance env pinataJWT = Inr sdk"
  proof (cases "getPinataInstance env pinataJWT")
    case (Inl e)
    with a show ?thesis
      by (simp add: uploadConfigToIPFS_def uploadConfigToIPFS_try_def)
  next
    case (Inr sdk)
    show ?thesis
    proof (cases "testAuthentication svc sdk")
      case (Inl e)
      with Inr a show ?thesis
        by (auto simp: uploadConfigToIPFS_def uploadConfigToIPFS_try_def)
    next
      case auth: (Inr u)
      from Inr auth have "\<exists>fl options. ?tr = [TestAuthentication sdk, UploadPublicFile sdk fl options]"
        by (auto simp: uploadConfigToIPFS_def uploadConfigToIPFS_try_def Let_def split: sum.splits)
      then obtain fl options where tr: "?tr = [TestAuthentication sdk, UploadPublicFile sdk fl options]"
        by blast
      with a have "i = 1" by (cases i) auto
      with tr Inr auth show ?thesis by auto
    qed
  qed
qed

theorem credential_checked_before_transfer_witness:
  "\<not> isPinataConfigured \<lparr>VITE_PINATA_JWT = None\<rparr> (Some [])
   \<and> uploadConfigToIPFS \<lparr>VITE_PINATA_JWT = None\<rparr> (example_service (js ''own'')) (js ''t'')
        [(js ''a'', JString (js ''1''))] (js ''dev'') (Some [])
      = (Inr \<lparr>success = False, ipfsHash = None, error = Some jwt_required\<rparr>, [])
   \<and> snd (uploadConfigToIPFS \<lparr>VITE_PINATA_JWT = None\<rparr> (example_service (js ''own'')) (js ''t'')
        [(js ''a'', JString (js ''1''))] (js ''dev'') (Some (js ''bad'')))
      = [TestAuthentication \<lparr>pinataJwt = js ''bad'',
                             pinataGateway = js ''https://gateway.pinata.cloud''\<rparr>]
   \<and> is_upload (snd (uploadConfigToIPFS \<lparr>VITE_PINATA_JWT = None\<rparr> (example_service (js ''own''))
        (js ''t'') [(js ''a'', JString (js ''1''))] (js ''dev'') (Some (js ''own''))) ! 1)
   \<and> (\<exists>sdk. snd (uploadConfigToIPFS \<lparr>VITE_PINATA_JWT = None\<rparr> (example_service (js ''own''))
        (js ''t'') [(js ''a'', JString (js ''1''))] (js ''dev'') (Some (js ''own''))) ! 0
          = TestAuthentication sdk
        \<and> testAuthentication (example_service (js ''own'')) sdk = Inr ())"
proof -
  let ?env = "\<lparr>VITE_PINATA_JWT = None\<rparr>"
  let ?svc = "example_service (js ''own'')"
  let ?cfg = "[(js ''a'', JString (js ''1''))]"
  let ?bad = "\<lparr>pinataJwt = js ''bad'', pinataGateway = js ''https://gateway.pinata.cloud''\<rparr>"
  let ?good = "uploadConfigToIPFS ?env ?svc (js ''t'') ?cfg (js ''dev'') (Some (js ''own''))"
  have n: "\<not> isPinataConfigured ?env (Some [])"
    by (simp add: isPinataConfigured_def js_or_def truthy_def)
  have g: "getPinataInstance ?env (Some (js ''bad'')) = Inr ?bad"
    by (simp add: getPinataInstance_def js_or_def truthy_def js_def)
  have r: "testAuthentication ?svc ?bad = Inl (ErrorObject (js ''Authentication failed''))"
    by (simp add: example_service_def js_def)
  have l: "1 < length (snd ?good) \<and> is_upload (snd ?good ! 1)"
    by (simp add: example_upload_defs js_def)
  note thm1 = credential_checked_before_transfer[of ?env "Some []" ?svc "js ''t''" ?cfg "js ''dev''"]
  note thm2 = credential_checked_before_transfer[of ?env "Some (js ''bad'')" ?svc "js ''t''" ?cfg "js ''dev''"]
  note thm3 = credential_checked_before_transfer[of ?env "Some (js ''own'')" ?svc "js ''t''" ?cfg "js ''dev''"]
  from thm1 n have c1: "uploadConfigToIPFS ?env ?svc (js ''t'') ?cfg (js ''dev'') (Some [])
      = (Inr \<lparr>success = False, ipfsHash = None, error = Some jwt_required\<rparr>, [])"
    by blast
  from thm2 g r have c2: "snd (uploadConfigToIPFS ?env ?svc (js ''t'') ?cfg (js ''dev'') (Some (js ''bad'')))
      = [TestAuthentication ?bad]"
    by blast
  from thm3 l obtain j sdk where "j < 1" and "snd ?good ! j = TestAuthentication sdk"
    and "testAuthentication ?svc sdk = Inr ()"
    by blast
  then have c3: "\<exists>sdk. snd ?good ! 0 = TestAuthentication sdk \<and> testAuthentication ?svc sdk = Inr ()"
    by auto
  from n c1 c2 l c3 show ?thesis by blast
qed

section \<open>Determinism of the encoding\<close>

lemma uploaded_bits_upload:
  "uploaded_bits (snd (uploadConfigToIPFS env svc now config environmentName pinataJWT)) = []
   \<or> uploaded_bits (snd (uploadConfigToIPFS env svc now config environmentName pinataJWT))
       = [JSON_stringify config]"
  by (auto simp: uploadConfigToIPFS_def uploadConfigToIPFS_try_def Let_def split: sum.splits)

lemma JSON_stringify_members:
  "string_members config = string_members config' \<Longrightarrow> JSON_stringify config = JSON_stringify config'"
  by (simp add: JSON_stringify_def)

text \<open>
  Claim C7. The bytes handed to the pinning service depend on the snapshot alone. Two runs
  of the upload on configurations with the same ordered key-value mapping hand over
  identical file contents, namely \<open>JSON.stringify\<close> of that mapping, whatever the
  environment name, the credentials, the clock and the answers of the service are.
\<close>

theorem encoding_deterministic:
  "string_members config = string_members config' \<Longrightarrow>
   \<forall>b \<in> set (uploaded_bits (snd (uploadConfigToIPFS env svc now config environmentName pinataJWT))).
   \<forall>b' \<in> set (uploaded_bits (snd (uploadConfigToIPFS env' svc' now' config' environmentName' pinataJWT'))).
     b = b' \<and> b = JSON_stringify config"
proof (intro ballI)
  fix b b'
  assume m: "string_members config = string_members config'"
  assume "b \<in> set (uploaded_bits (snd (uploadConfigToIPFS env svc now config environmentName pinataJWT)))"
  then have b: "b = JSON_stringify config"
    using uploaded_bits_upload[of env svc now config environmentName pinataJWT] by auto
  assume "b' \<in> set (uploaded_bits (snd (uploadConfigToIPFS env' svc' now' config' environmentName' pinataJWT')))"
  then have "b' = JSON_stringify config'"
    using uploaded_bits_upload[of env' svc' now' config' environmentName' pinataJWT'] by auto
  with b JSON_stringify_members[OF m] show "b = b' \<and> b = JSON_stringify config" by simp
qed

theorem encoding_deterministic_witness:
  "string_members example_snapshot = string_members (example_snapshot @ [(js ''c'', JUndefined)])
   \<and> uploaded_bits (snd (uploadConfigToIPFS \<lparr>VITE_PINATA_JWT = None\<rparr> (example_service (js ''own''))
        (js ''2024-01-01T00:00:00.000Z'') example_snapshot (js ''dev'') (Some (js ''own''))))
     = uploaded_bits (snd (uploadConfigToIPFS \<lparr>VITE_PINATA_JWT = Some (js ''shared'')\<rparr>
        (example_service (js ''shared'')) (js ''2025-06-30T12:00:00.000Z'')
        (example_snapshot @ [(js ''c'', JUndefined)]) (js ''prod'') None))
   \<and> length (uploaded_bits (snd (uploadConfigToIPFS \<lparr>VITE_PINATA_JWT = None\<rparr>
        (example_service (js ''own'')) (js ''2024-01-01T00:00:00.000Z'') example_snapshot
        (js ''dev'') (Some (js ''own''))))) = 1"
proof -
  let ?r1 = "uploaded_bits (snd (uploadConfigToIPFS \<lparr>VITE_PINATA_JWT = None\<rparr>
        (example_service (js ''own'')) (js ''2024-01-01T00:00:00.000Z'') example_snapshot
        (js ''dev'') (Some (js ''own''))))"
  let ?r2 = "uploaded_bits (snd (uploadConfigToIPFS \<lparr>VITE_PINATA_JWT = Some (js ''shared'')\<rparr>
        (example_service (js ''shared'')) (js ''2025-06-30T12:00:00.000Z'')
        (example_snapshot @ [(js ''c'', JUndefined)]) (js ''prod'') None))"
  have m: "string_members example_snapshot = string_members (example_snapshot @ [(js ''c'', JUndefined)])"
    by (simp add: example_snapshot_def)
  have ne: "JSON_stringify example_snapshot \<noteq> []"
    by (simp add: JSON_stringify_example)
  have ne': "JSON_stringify (example_snapshot @ [(js ''c'', JUndefined)]) \<noteq> []"
    using JSON_stringify_members[OF m] ne by simp
  have l1: "length ?r1 = 1"
    using ne by (simp add: example_upload_defs js_def del: JSON_stringify_def)
  have l2: "length ?r2 = 1"
    using ne' by (simp add: example_upload_defs js_def del: JSON_stringify_def)
  from l1 obtain b where r1: "?r1 = [b]" by (auto simp: length_Suc_conv)
  from l2 obtain b' where r2: "?r2 = [b']" by (auto simp: length_Suc_conv)
  from encoding_deterministic[OF m, of "\<lparr>VITE_PINATA_JWT = None\<rparr>" "example_service (js ''own'')"
      "js ''2024-01-01T00:00:00.000Z''" "js ''dev''" "Some (js ''own'')"
      "\<lparr>VITE_PINATA_JWT = Some (js ''shared'')\<rparr>" "example_service (js ''shared'')"
      "js ''2025-06-30T12:00:00.000Z''" "js ''prod''" None] r1 r2
  have "b = b'" by simp
  with r1 r2 m l1 show ?thesis by simp
qed

section \<open>Properties of the publisher orchestrator\<close>

text \<open>What the upload step of a publish call did, in terms of the service.\<close>

lemma upload_identifier_upload:
  "upload_identifier (fst (uploadConfigToIPFS env svc now config environmentName pinataJWT)) = Inr c
   \<longleftrightarrow> (\<exists>sdk fl options resp.
          snd (uploadConfigToIPFS env svc now config environmentName pinataJWT)
            = [TestAuthentication sdk, UploadPublicFile sdk fl options]
          \<and> upload_public_file svc sdk fl options = Inr resp \<and> cid resp = c)"
  by (auto simp: uploadConfigToIPFS_def uploadConfigToIPFS_try_def upload_identifier_def Let_def
      split: sum.splits)

lemma upload_no_name_publish:
  "\<not> list_ex is_name_publish (snd (uploadConfigToIPFS env svc now config environmentName pinataJWT))"
  by (auto simp: uploadConfigToIPFS_def uploadConfigToIPFS_try_def Let_def split: sum.splits)

lemma publish_cases:
  fixes env svc naming now snapshot r
  defines "u \<equiv> uploadConfigToIPFS env svc now snapshot (env_name r) (serviceCredential r)"
  shows "publish env svc naming now snapshot r =
     (case upload_identifier (fst u) of
        Inl failure \<Rightarrow> (\<lparr>uploadResult = UploadFailure failure, nameUpdateResult = Skipped\<rparr>, snd u)
      | Inr c \<Rightarrow>
          (case credential r of
             None \<Rightarrow> (\<lparr>uploadResult = Identifier c, nameUpdateResult = Skipped\<rparr>, snd u)
           | Some key \<Rightarrow>
               (\<lparr>uploadResult = Identifier c,
                 nameUpdateResult =
                   (case naming key c of
                      Inl failure \<Rightarrow> NameUpdateFailure failure
                    | Inr newName \<Rightarrow> NameUpdated newName (js ''https://ipfs.io/ipns/'' @ newName))\<rparr>,
                snd u @ [NamePublish key c])))"
  unfolding u_def publish_def
  by (auto split: prod.splits sum.splits option.splits)

lemma upload_success_iff:
  "fst (uploadConfigToIPFS env svc now config environmentName pinataJWT)
     = Inr \<lparr>success = True, ipfsHash = Some c, error = None\<rparr>
   \<longleftrightarrow> upload_identifier (fst (uploadConfigToIPFS env svc now config environmentName pinataJWT)) = Inr c"
  by (auto simp: uploadConfigToIPFS_def uploadConfigToIPFS_try_def upload_identifier_def Let_def
      split: sum.splits)

text \<open>
  Claim C1. In every publish call, a call to the publish primitive of the naming network
  comes after a file upload of the same call that the pinning service accepted, and it
  carries the identifier that upload returned, which is also the identifier the outcome
  reports. When the outcome reports no identifier, the name update is skipped and the
  naming network is never called.
\<close>

theorem name_update_after_upload:
  "(\<forall>i key c. i < length (snd (publish env svc naming now snapshot r))
        \<and> snd (publish env svc naming now snapshot r) ! i = NamePublish key c \<longrightarrow>
      uploadResult (fst (publish env svc naming now snapshot r)) = Identifier c
      \<and> (\<exists>j < i. \<exists>sdk fl options resp.
            snd (publish env svc naming now snapshot r) ! j = UploadPublicFile sdk fl options
            \<and> upload_public_file svc sdk fl options = Inr resp \<and> cid resp = c))
   \<and> ((\<forall>c. uploadResult (fst (publish env svc naming now snapshot r)) \<noteq> Identifier c) \<longrightarrow>
        nameUpdateResult (fst (publish env svc naming now snapshot r)) = Skipped
        \<and> \<not> list_ex is_name_publish (snd (publish env svc naming now snapshot r)))"
proof -
  define u where "u = uploadConfigToIPFS env svc now snapshot (env_name r) (serviceCredential r)"
  note pc = publish_cases[of env svc naming now snapshot r, folded u_def]
  have nn: "\<not> list_ex is_name_publish (snd u)"
    unfolding u_def by (rule upload_no_name_publish)
  show ?thesis
  proof (cases "upload_identifier (fst u)")
    case (Inl failure)
    with pc have p: "publish env svc naming now snapshot r
        = (\<lparr>uploadResult = UploadFailure failure, nameUpdateResult = Skipped\<rparr>, snd u)"
      by simp
    from nn have "\<And>i key c. i < length (snd u) \<Longrightarrow> snd u ! i \<noteq> NamePublish key c"
      by (metis is_name_publish.simps(1) list_ex_iff nth_mem)
    with nn show ?thesis unfolding p by auto
  next
    case (Inr c)
    then obtain sdk fl options resp where
      tr: "snd u = [TestAuthentication sdk, UploadPublicFile sdk fl options]"
      and ok: "upload_public_file svc sdk fl options = Inr resp" and c: "cid resp = c"
      unfolding u_def upload_identifier_upload by blast
    show ?thesis
    proof (cases "credential r")
      case None
      with pc Inr have p: "publish env svc naming now snapshot r
          = (\<lparr>uploadResult = Identifier c, nameUpdateResult = Skipped\<rparr>, snd u)"
        by simp
      have "\<And>i key c'. i < length (snd u) \<Longrightarrow> snd u ! i \<noteq> NamePublish key c'"
        unfolding tr by (auto simp: less_Suc_eq)
      then show ?thesis unfolding p by auto
    next
      case (Some key)
      with pc Inr obtain out where
        p: "publish env svc naming now snapshot r = (out, snd u @ [NamePublish key c])"
        and o: "uploadResult out = Identifier c"
        by simp
      have "\<exists>j < i. \<exists>sdk fl options resp.
              (snd u @ [NamePublish key c]) ! j = UploadPublicFile sdk fl options
              \<and> upload_public_file svc sdk fl options = Inr resp \<and> cid resp = c' \<and> c' = c"
        if "i < length (snd u @ [NamePublish key c])"
          and "(snd u @ [NamePublish key c]) ! i = NamePublish key' c'" for i key' c'
      proof -
        from that have "i = 2 \<and> c' = c"
          unfolding tr by (auto simp: less_Suc_eq numeral_2_eq_2 numeral_3_eq_3)
        with tr ok c show ?thesis
          by (intro exI[of _ 1]) auto
      qed
      with o show ?thesis unfolding p by fastforce
    qed
  qed
qed

lemma example_publish_trace:
  "snd (publish \<lparr>VITE_PINATA_JWT = None\<rparr> (example_service (js ''own'')) naming now
          example_snapshot example_record)
   = snd (uploadConfigToIPFS \<lparr>VITE_PINATA_JWT = None\<rparr> (example_service (js ''own'')) now
            example_snapshot (js ''dev'') (Some (js ''own'')))
     @ [NamePublish (js ''ipns-key'') (js ''cid-of-dev'')]"
  by (simp add: publish_cases example_record_def example_upload upload_identifier_def
      split: sum.splits)

theorem name_update_after_upload_witness:
  "snd (publish \<lparr>VITE_PINATA_JWT = None\<rparr> (example_service (js ''own'')) reachable_network
          (js ''t'') example_snapshot example_record) ! 2
     = NamePublish (js ''ipns-key'') (js ''cid-of-dev'')
   \<and> uploadResult (fst (publish \<lparr>VITE_PINATA_JWT = None\<rparr> (example_service (js ''own''))
          reachable_network (js ''t'') example_snapshot example_record))
     = Identifier (js ''cid-of-dev'')
   \<and> (\<exists>j < 2. \<exists>sdk fl options resp.
         snd (publish \<lparr>VITE_PINATA_JWT = None\<rparr> (example_service (js ''own'')) reachable_network
                (js ''t'') example_snapshot example_record) ! j
           = UploadPublicFile sdk fl options
         \<and> upload_public_file (example_service (js ''own'')) sdk fl options = Inr resp
         \<and> cid resp = js ''cid-of-dev'')
   \<and> uploadResult (fst (publish \<lparr>VITE_PINATA_JWT = None\<rparr> (example_service (js ''other''))
          reachable_network (js ''t'') example_snapshot example_record))
     = UploadFailure (js ''Authentication failed'')
   \<and> nameUpdateResult (fst (publish \<lparr>VITE_PINATA_JWT = None\<rparr> (example_service (js ''other''))
          reachable_network (js ''t'') example_snapshot example_record)) = Skipped
   \<and> \<not> list_ex is_name_publish (snd (publish \<lparr>VITE_PINATA_JWT = None\<rparr>
          (example_service (js ''other'')) reachable_network (js ''t'') example_snapshot
          example_record))"
proof -
  let ?P = "publish \<lparr>VITE_PINATA_JWT = None\<rparr> (example_service (js ''own'')) reachable_network
              (js ''t'') example_snapshot example_record"
  let ?Q = "publish \<lparr>VITE_PINATA_JWT = None\<rparr> (example_service (js ''other'')) reachable_network
              (js ''t'') example_snapshot example_record"
  have t: "2 < length (snd ?P) \<and> snd ?P ! 2 = NamePublish (js ''ipns-key'') (js ''cid-of-dev'')"
    by (simp add: example_publish_trace example_upload)
  from name_update_after_upload[of "\<lparr>VITE_PINATA_JWT = None\<rparr>" "example_service (js ''own'')"
      reachable_network "js ''t''" example_snapshot example_record] t
  have p: "snd ?P ! 2 = NamePublish (js ''ipns-key'') (js ''cid-of-dev'')
      \<and> uploadResult (fst ?P) = Identifier (js ''cid-of-dev'')
      \<and> (\<exists>j < 2. \<exists>sdk fl options resp. snd ?P ! j = UploadPublicFile sdk fl options
         \<and> upload_public_file (example_service (js ''own'')) sdk fl options = Inr resp
         \<and> cid resp = js ''cid-of-dev'')"
    by blast
  have f: "uploadResult (fst ?Q) = UploadFailure (js ''Authentication failed'')"
    by (simp add: publish_def upload_identifier_def example_record_def example_upload_defs js_def)
  then have "\<forall>c. uploadResult (fst ?Q) \<noteq> Identifier c"
    by simp
  with name_update_after_upload[of "\<lparr>VITE_PINATA_JWT = None\<rparr>" "example_service (js ''other'')"
      reachable_network "js ''t''" example_snapshot example_record]
  have "nameUpdateResult (fst ?Q) = Skipped \<and> \<not> list_ex is_name_publish (snd ?Q)"
    by blast
  with p f show ?thesis by blast
qed

text \<open>
  Claim C2. The outcome of a publish call reports the identifier \<open>c\<close> exactly when the
  upload step succeeded with \<open>c\<close>, whatever the naming network answers. When the upload
  succeeds, a credential is present and the publish primitive fails, the outcome is the
  identifier together with the name-update failure, and the identifier is the one the
  pinning service returned for the file of this call.
\<close>

theorem upload_success_not_retracted:
  "(uploadResult (fst (publish env svc naming now snapshot r)) = Identifier c
      \<longleftrightarrow> fst (uploadConfigToIPFS env svc now snapshot (env_name r) (serviceCredential r))
            = Inr \<lparr>success = True, ipfsHash = Some c, error = None\<rparr>)
   \<and> (fst (uploadConfigToIPFS env svc now snapshot (env_name r) (serviceCredential r))
         = Inr \<lparr>success = True, ipfsHash = Some c, error = None\<rparr>
       \<and> credential r = Some key \<and> naming key c = Inl failure \<longrightarrow>
         fst (publish env svc naming now snapshot r)
           = \<lparr>uploadResult = Identifier c, nameUpdateResult = NameUpdateFailure failure\<rparr>
         \<and> (\<exists>sdk fl options resp.
               UploadPublicFile sdk fl options \<in> set (snd (publish env svc naming now snapshot r))
               \<and> upload_public_file svc sdk fl options = Inr resp \<and> cid resp = c))"
proof -
  define u where "u = uploadConfigToIPFS env svc now snapshot (env_name r) (serviceCredential r)"
  note pc = publish_cases[of env svc naming now snapshot r, folded u_def]
  note si = upload_success_iff[of env svc now snapshot "env_name r" "serviceCredential r", folded u_def]
  note ui = upload_identifier_upload[of env svc now snapshot "env_name r" "serviceCredential r",
      folded u_def]
  have a: "uploadResult (fst (publish env svc naming now snapshot r)) = Identifier c
             \<longleftrightarrow> upload_identifier (fst u) = Inr c"
    unfolding pc by (auto split: sum.splits option.splits)
  have b: "fst (publish env svc naming now snapshot r)
             = \<lparr>uploadResult = Identifier c, nameUpdateResult = NameUpdateFailure failure\<rparr>
           \<and> (\<exists>sdk fl options resp.
               UploadPublicFile sdk fl options \<in> set (snd (publish env svc naming now snapshot r))
               \<and> upload_public_file svc sdk fl options = Inr resp \<and> cid resp = c)"
    if ok: "upload_identifier (fst u) = Inr c" and k: "credential r = Some key"
      and f: "naming key c = Inl failure"
  proof -
    from ok obtain sdk fl options resp where
      tr: "snd u = [TestAuthentication sdk, UploadPublicFile sdk fl options]"
      and r: "upload_public_file svc sdk fl options = Inr resp" "cid resp = c"
      unfolding ui by blast
    from ok k f have p: "publish env svc naming now snapshot r
        = (\<lparr>uploadResult = Identifier c, nameUpdateResult = NameUpdateFailure failure\<rparr>,
           snd u @ [NamePublish key c])"
      unfolding pc by simp
    from tr r show ?thesis unfolding p by auto
  qed
  from a b show ?thesis unfolding u_def[symmetric] si by blast
qed

theorem upload_success_not_retracted_witness:
  "fst (uploadConfigToIPFS \<lparr>VITE_PINATA_JWT = None\<rparr> (example_service (js ''own'')) (js ''t'')
          example_snapshot (env_name example_record) (serviceCredential example_record))
     = Inr \<lparr>success = True, ipfsHash = Some (js ''cid-of-dev''), error = None\<rparr>
   \<and> credential example_record = Some (js ''ipns-key'')
   \<and> unreachable_network (js ''ipns-key'') (js ''cid-of-dev'') = Inl (js ''network unreachable'')
   \<and> fst (publish \<lparr>VITE_PINATA_JWT = None\<rparr> (example_service (js ''own'')) unreachable_network
            (js ''t'') example_snapshot example_record)
     = \<lparr>uploadResult = Identifier (js ''cid-of-dev''),
        nameUpdateResult = NameUpdateFailure (js ''network unreachable'')\<rparr>"
proof -
  have h: "fst (uploadConfigToIPFS \<lparr>VITE_PINATA_JWT = None\<rparr> (example_service (js ''own''))
                 (js ''t'') example_snapshot (env_name example_record)
                 (serviceCredential example_record))
             = Inr \<lparr>success = True, ipfsHash = Some (js ''cid-of-dev''), error = None\<rparr>"
    by (simp add: example_record_def example_upload)
  have k: "credential example_record = Some (js ''ipns-key'')"
    by (simp add: example_record_def)
  have f: "unreachable_network (js ''ipns-key'') (js ''cid-of-dev'') = Inl (js ''network unreachable'')"
    by (simp add: unreachable_network_def)
  from upload_success_not_retracted[of "\<lparr>VITE_PINATA_JWT = None\<rparr>" "example_service (js ''own'')"
      unreachable_network "js ''t''" example_snapshot example_record "js ''cid-of-dev''"
      "js ''ipns-key''" "js ''network unreachable''"] h k f
  show ?thesis by blast
qed

text \<open>
  Claim C3. For an environment record without a credential, publish never calls the
  naming network: its calls are those of the upload step alone, the name update is
  reported as skipped, and when the upload succeeded the outcome carries its identifier.
\<close>

theorem no_credential_skips_name_update:
  "credential r = None \<Longrightarrow>
   nameUpdateResult (fst (publish env svc naming now snapshot r)) = Skipped
   \<and> \<not> list_ex is_name_publish (snd (publish env svc naming now snapshot r))
   \<and> snd (publish env svc naming now snapshot r)
       = snd (uploadConfigToIPFS env svc now snapshot (env_name r) (serviceCredential r))
   \<and> (\<forall>c. fst (uploadConfigToIPFS env svc now snapshot (env_name r) (serviceCredential r))
              = Inr \<lparr>success = True, ipfsHash = Some c, error = None\<rparr> \<longrightarrow>
            fst (publish env svc naming now snapshot r)
              = \<lparr>uploadResult = Identifier c, nameUpdateResult = Skipped\<rparr>)"
proof -
  assume n: "credential r = None"
  define u where "u = uploadConfigToIPFS env svc now snapshot (env_name r) (serviceCredential r)"
  note pc = publish_cases[of env svc naming now snapshot r, folded u_def]
  note si = upload_success_iff[of env svc now snapshot "env_name r" "serviceCredential r", folded u_def]
  have nn: "\<not> list_ex is_name_publish (snd u)"
    unfolding u_def by (rule upload_no_name_publish)
  have "nameUpdateResult (fst (publish env svc naming now snapshot r)) = Skipped"
    and "snd (publish env svc naming now snapshot r) = snd u"
    and "\<forall>c. upload_identifier (fst u) = Inr c \<longrightarrow>
            fst (publish env svc naming now snapshot r)
              = \<lparr>uploadResult = Identifier c, nameUpdateResult = Skipped\<rparr>"
    unfolding pc using n by (auto split: sum.splits)
  with nn show ?thesis unfolding u_def[symmetric] si by simp
qed

theorem no_credential_skips_name_update_witness:
  "credential (example_record\<lparr>credential := None\<rparr>) = None
   \<and> publish \<lparr>VITE_PINATA_JWT = None\<rparr> (example_service (js ''own'')) reachable_network
        (js ''t'') example_snapshot (example_record\<lparr>credential := None\<rparr>)
     = (\<lparr>uploadResult = Identifier (js ''cid-of-dev''), nameUpdateResult = Skipped\<rparr>,
        snd (uploadConfigToIPFS \<lparr>VITE_PINATA_JWT = None\<rparr> (example_service (js ''own''))
               (js ''t'') example_snapshot (js ''dev'') (Some (js ''own''))))"
proof -
  let ?r = "example_record\<lparr>credential := None\<rparr>"
  have n: "credential ?r = None" by simp
  have e: "env_name ?r = js ''dev''" "serviceCredential ?r = Some (js ''own'')"
    by (simp_all add: example_record_def)
  have h: "fst (uploadConfigToIPFS \<lparr>VITE_PINATA_JWT = None\<rparr> (example_service (js ''own''))
                 (js ''t'') example_snapshot (env_name ?r) (serviceCredential ?r))
             = Inr \<lparr>success = True, ipfsHash = Some (js ''cid-of-dev''), error = None\<rparr>"
    unfolding e by (simp add: example_upload)
  from no_credential_skips_name_update[OF n, of "\<lparr>VITE_PINATA_JWT = None\<rparr>"
      "example_service (js ''own'')" reachable_network "js ''t''" example_snapshot] h
  have "fst (publish \<lparr>VITE_PINATA_JWT = None\<rparr> (example_service (js ''own'')) reachable_network
              (js ''t'') example_snapshot ?r)
          = \<lparr>uploadResult = Identifier (js ''cid-of-dev''), nameUpdateResult = Skipped\<rparr>"
    and "snd (publish \<lparr>VITE_PINATA_JWT = None\<rparr> (example_service (js ''own'')) reachable_network
              (js ''t'') example_snapshot ?r)
          = snd (uploadConfigToIPFS \<lparr>VITE_PINATA_JWT = None\<rparr> (example_service (js ''own''))
               (js ''t'') example_snapshot (js ''dev'') (Some (js ''own'')))"
    unfolding e by blast+
  with n show ?thesis by (simp add: prod_eq_iff)
qed

section \<open>Properties of the report\<close>

text \<open>
  A successful upload with its identifier is shown first whatever the name update did; a
  failed name update adds its own line after it, and an absent one the notice that only
  the upload was made.
\<close>

theorem upload_message_keeps_hash:
  "success ipfsResult \<Longrightarrow> ipfsHash ipfsResult = Some h \<Longrightarrow> h \<noteq> [] \<Longrightarrow>
   (\<exists>rest. upload_message ipfsResult ipnsResult
             = mark_ok @ js '' Uploaded to IPFS! Hash: '' @ h @ rest)
   \<and> (\<forall>r. ipnsResult = Some r \<and> \<not> ipns_success r \<longrightarrow>
         upload_message ipfsResult ipnsResult
           = mark_ok @ js '' Uploaded to IPFS! Hash: '' @ h @ [0x0A] @ mark_failed
               @ js '' IPNS update failed: '' @ template (ipns_error r))
   \<and> (ipnsResult = None \<longrightarrow>
         upload_message ipfsResult ipnsResult
           = mark_ok @ js '' Uploaded to IPFS! Hash: '' @ h @ [0x0A] @ mark_warning
               @ js '' No IPNS private key found - IPFS upload only'')"
  by (auto simp: upload_message_def truthy_def template_def Let_def split: option.splits)

theorem upload_message_keeps_hash_witness:
  "success \<lparr>success = True, ipfsHash = Some (js ''cid-of-dev''), error = None\<rparr>
   \<and> js ''cid-of-dev'' \<noteq> []
   \<and> upload_message \<lparr>success = True, ipfsHash = Some (js ''cid-of-dev''), error = None\<rparr>
         (Some \<lparr>ipns_success = False, ipnsName = None,
                ipns_error = Some (js ''network unreachable'')\<rparr>)
       = mark_ok @ js '' Uploaded to IPFS! Hash: '' @ js ''cid-of-dev'' @ [0x0A] @ mark_failed
           @ js '' IPNS update failed: '' @ js ''network unreachable''"
proof -
  have n: "js ''cid-of-dev'' \<noteq> []" by (simp add: js_def)
  from upload_message_keeps_hash[of "\<lparr>success = True, ipfsHash = Some (js ''cid-of-dev''),
      error = None\<rparr>" "js ''cid-of-dev''" "Some \<lparr>ipns_success = False, ipnsName = None,
                ipns_error = Some (js ''network unreachable'')\<rparr>"] n
  show ?thesis by (simp add: template_def)
qed

end
